theory Spec2Isabelle
  imports Complex_Main
begin

section \<open>Numbers and containers\<close>

text \<open>
  The simulation computes with Python floats. They are modelled as the real numbers:
  every arithmetic operation, \<open>math.sqrt\<close> and \<open>math.sin\<close> is the exact real
  operation, so rounding, infinities and NaN are outside the model. The branch structure,
  the order of the assignments and the formulas are those of the source. Where the code
  truncates a float with \<open>int()\<close> the model stops at the value handed to \<open>int()\<close>:
  truncation is not continuous, so the rounding of the float can move its result by one.
  A float division by zero raises \<open>ZeroDivisionError\<close>; the model returns it as a value.

  \<open>collections.deque(maxlen=n)\<close> is a list with the oldest element first. An append
  puts the item at the right end and, when the deque then holds more than \<open>maxlen\<close>
  items, drops the leftmost one.
\<close>

definition deque_append :: "nat \<Rightarrow> 'a list \<Rightarrow> 'a \<Rightarrow> 'a list" where
  "deque_append maxlen d v = (let d' = d @ [v] in if maxlen < length d' then tl d' else d')"

datatype py_error = ZeroDivisionError

section \<open>Physical constants and geometry (Simul.py, module level)\<close>

definition ELECTRON_CHARGE :: real where "ELECTRON_CHARGE = 1602 / 10 ^ 22"
definition ELECTRON_MASS :: real where "ELECTRON_MASS = 9109 / 10 ^ 34"
definition SCREEN_SIZE :: real where "SCREEN_SIZE = 20 / 100"
definition PLATE_SEPARATION :: real where "PLATE_SEPARATION = 2 / 100"
definition PLATE_LENGTH :: real where "PLATE_LENGTH = 5 / 100"
definition DISTANCE_TO_SCREEN :: real where "DISTANCE_TO_SCREEN = 15 / 100"
definition DISTANCE_BETWEEN_PLATES :: real where "DISTANCE_BETWEEN_PLATES = 3 / 100"
definition DISTANCE_GUN_TO_PLATES :: real where "DISTANCE_GUN_TO_PLATES = 5 / 100"

text \<open>
  simul\_prueba.py has the same geometry and mass, a signed charge and a separate
  magnitude for the energy equation.
\<close>

definition ELECTRON_CHARGE_prueba :: real where "ELECTRON_CHARGE_prueba = - (1602 / 10 ^ 22)"
definition ELECTRON_CHARGE_MAG :: real where "ELECTRON_CHARGE_MAG = 1602 / 10 ^ 22"

section \<open>class Electron\<close>

record electron =
  x :: real
  y :: real
  z :: real
  vx :: real
  vy :: real
  vz :: real
  path :: "(real \<times> real \<times> real) list"
  initial_acceleration_done :: bool

definition reset :: "electron \<Rightarrow> electron" where
  "reset e = e\<lparr>x := 0, y := 0, z := 1 / 1000, vx := 0, vy := 0, vz := 0,
               path := [], initial_acceleration_done := False\<rparr>"

text \<open>The four region boundaries computed at the start of \<open>Electron.update\<close>.\<close>

definition vertical_plate_start :: real where
  "vertical_plate_start = DISTANCE_GUN_TO_PLATES"
definition vertical_plate_end :: real where
  "vertical_plate_end = vertical_plate_start + PLATE_LENGTH"
definition horizontal_plate_start :: real where
  "horizontal_plate_start = vertical_plate_end + DISTANCE_BETWEEN_PLATES"
definition horizontal_plate_end :: real where
  "horizontal_plate_end = horizontal_plate_start + PLATE_LENGTH"

text \<open>The local variables \<open>acceleration_y\<close> and \<open>acceleration_x\<close> of Simul.py.\<close>

definition acceleration_y :: "real \<Rightarrow> real" where
  "acceleration_y vertical_v =
     (let electric_field_y = vertical_v / PLATE_SEPARATION;
          force_y = - ELECTRON_CHARGE * electric_field_y
      in force_y / ELECTRON_MASS)"

definition acceleration_x :: "real \<Rightarrow> real" where
  "acceleration_x horizontal_v =
     (let electric_field_x = horizontal_v / PLATE_SEPARATION;
          force_x = - ELECTRON_CHARGE * electric_field_x
      in force_x / ELECTRON_MASS)"

text \<open>The local variables \<open>ay\<close> and \<open>ax\<close> of simul\_prueba.py.\<close>

definition ay_prueba :: "real \<Rightarrow> real" where
  "ay_prueba vertical_v =
     (let Ey = - vertical_v / PLATE_SEPARATION;
          Fy = ELECTRON_CHARGE_prueba * Ey
      in Fy / ELECTRON_MASS)"

definition ax_prueba :: "real \<Rightarrow> real" where
  "ax_prueba horizontal_v =
     (let Ex = - horizontal_v / PLATE_SEPARATION;
          Fx = ELECTRON_CHARGE_prueba * Ex
      in Fx / ELECTRON_MASS)"

text \<open>
  \<open>Electron.update\<close> is a sequence of in-place assignments. Each definition below is
  one block of the method, in the order of the source: the one-time axial impulse, the
  field of the vertical plates, the field of the horizontal plates, then the three
  position assignments and \<open>self.path.append\<close>. \<open>update\<close> runs them one after the
  other, each on the electron the previous block left.
\<close>

definition initial_acceleration :: "real \<Rightarrow> electron \<Rightarrow> electron" where
  "initial_acceleration acceleration_v e =
     (if \<not> initial_acceleration_done e \<and> \<bar>acceleration_v\<bar> > 0
      then e\<lparr>vz := sqrt (2 * ELECTRON_CHARGE * \<bar>acceleration_v\<bar> / ELECTRON_MASS),
             initial_acceleration_done := True\<rparr>
      else e)"

definition vertical_field :: "real \<Rightarrow> real \<Rightarrow> electron \<Rightarrow> electron" where
  "vertical_field dt vertical_v e =
     (if vertical_plate_start \<le> z e \<and> z e \<le> vertical_plate_end
         \<and> \<bar>y e\<bar> < PLATE_SEPARATION / 2
      then e\<lparr>vy := vy e + acceleration_y vertical_v * dt\<rparr>
      else e)"

definition horizontal_field :: "real \<Rightarrow> real \<Rightarrow> electron \<Rightarrow> electron" where
  "horizontal_field dt horizontal_v e =
     (if horizontal_plate_start \<le> z e \<and> z e \<le> horizontal_plate_end
         \<and> \<bar>x e\<bar> < PLATE_SEPARATION / 2
      then e\<lparr>vx := vx e + acceleration_x horizontal_v * dt\<rparr>
      else e)"

definition kinematics :: "real \<Rightarrow> electron \<Rightarrow> electron" where
  "kinematics dt e =
     (let e1 = e\<lparr>x := x e + vx e * dt\<rparr>;
          e2 = e1\<lparr>y := y e1 + vy e1 * dt\<rparr>;
          e3 = e2\<lparr>z := z e2 + vz e2 * dt\<rparr>
      in e3\<lparr>path := deque_append 1000 (path e3) (x e3, y e3, z e3)\<rparr>)"

definition update :: "real \<Rightarrow> real \<Rightarrow> real \<Rightarrow> real \<Rightarrow> electron \<Rightarrow> electron" where
  "update dt acceleration_v vertical_v horizontal_v e =
     kinematics dt
       (horizontal_field dt horizontal_v
         (vertical_field dt vertical_v
           (initial_acceleration acceleration_v e)))"

definition has_hit_screen :: "electron \<Rightarrow> bool" where
  "has_hit_screen e =
     (let screen_distance = DISTANCE_GUN_TO_PLATES + PLATE_LENGTH
                            + DISTANCE_BETWEEN_PLATES + PLATE_LENGTH + DISTANCE_TO_SCREEN
      in z e \<ge> screen_distance)"

definition get_screen_position :: "electron \<Rightarrow> real \<times> real" where
  "get_screen_position e = (x e, y e)"

definition is_within_screen_bounds :: "electron \<Rightarrow> bool" where
  "is_within_screen_bounds e = (\<bar>x e\<bar> \<le> SCREEN_SIZE / 2 \<and> \<bar>y e\<bar> \<le> SCREEN_SIZE / 2)"

text \<open>
  \<open>Electron.update\<close> of simul\_prueba.py: the same blocks, with the charge magnitude in
  the energy equation and its own field signs. The position block is the same text.
\<close>

definition initial_acceleration_prueba :: "real \<Rightarrow> electron \<Rightarrow> electron" where
  "initial_acceleration_prueba acceleration_v e =
     (if \<not> initial_acceleration_done e \<and> \<bar>acceleration_v\<bar> > 0
      then e\<lparr>vz := sqrt (2 * ELECTRON_CHARGE_MAG * \<bar>acceleration_v\<bar> / ELECTRON_MASS),
             initial_acceleration_done := True\<rparr>
      else e)"

definition vertical_field_prueba :: "real \<Rightarrow> real \<Rightarrow> electron \<Rightarrow> electron" where
  "vertical_field_prueba dt vertical_v e =
     (if vertical_plate_start \<le> z e \<and> z e \<le> vertical_plate_end
         \<and> \<bar>y e\<bar> < PLATE_SEPARATION / 2
      then e\<lparr>vy := vy e + ay_prueba vertical_v * dt\<rparr>
      else e)"

definition horizontal_field_prueba :: "real \<Rightarrow> real \<Rightarrow> electron \<Rightarrow> electron" where
  "horizontal_field_prueba dt horizontal_v e =
     (if horizontal_plate_start \<le> z e \<and> z e \<le> horizontal_plate_end
         \<and> \<bar>x e\<bar> < PLATE_SEPARATION / 2
      then e\<lparr>vx := vx e + ax_prueba horizontal_v * dt\<rparr>
      else e)"

definition update_prueba :: "real \<Rightarrow> real \<Rightarrow> real \<Rightarrow> real \<Rightarrow> electron \<Rightarrow> electron" where
  "update_prueba dt acceleration_v vertical_v horizontal_v e =
     kinematics dt
       (horizontal_field_prueba dt horizontal_v
         (vertical_field_prueba dt vertical_v
           (initial_acceleration_prueba acceleration_v e)))"

text \<open>A transit driven by a list of calls \<open>(dt, Va, Vv, Vh)\<close>, oldest first.\<close>

fun updates :: "(real \<times> real \<times> real \<times> real) list \<Rightarrow> electron \<Rightarrow> electron" where
  "updates [] e = e"
| "updates ((dt, va, vv, vh) # cs) e = updates cs (update dt va vv vh e)"

section \<open>class CRTSimulation\<close>

text \<open>
  \<open>self.sliders\<close> is a dictionary of sliders with a fixed set of keys; only the value
  \<open>val\<close> of each slider is read by the engine. A trace is the dictionary with the keys
  \<open>'x'\<close>, \<open>'y'\<close>, \<open>'time'\<close> and \<open>'brightness'\<close> that \<open>update_physics\<close> appends.
\<close>

record sliders =
  acceleration_voltage :: real
  persistence :: real
  vertical_voltage :: real
  horizontal_voltage :: real
  vert_amplitude :: real
  vert_frequency :: real
  vert_phase :: real
  horiz_amplitude :: real
  horiz_frequency :: real
  horiz_phase :: real

record trace =
  trace_x :: real
  trace_y :: real
  trace_time :: real
  trace_brightness :: real

record simulation =
  mode :: string
  time :: real
  electron :: electron
  screen_traces :: "trace list"
  simulation_speed :: int
  sliders :: sliders

text \<open>The state \<open>CRTSimulation.__init__\<close> and \<open>setup_controls\<close> build.\<close>

definition Electron_init :: electron where
  "Electron_init =
     reset \<lparr>x = 0, y = 0, z = 0, vx = 0, vy = 0, vz = 0, path = [],
            initial_acceleration_done = False\<rparr>"

definition setup_controls :: sliders where
  "setup_controls =
     \<lparr>acceleration_voltage = 2000, persistence = 500,
      vertical_voltage = 0, horizontal_voltage = 0,
      vert_amplitude = 150, vert_frequency = 1, vert_phase = 0,
      horiz_amplitude = 150, horiz_frequency = 15 / 10, horiz_phase = 90\<rparr>"

definition CRTSimulation_init :: simulation where
  "CRTSimulation_init =
     \<lparr>mode = ''manual'', time = 0, electron = Electron_init, screen_traces = [],
      simulation_speed = 1, sliders = setup_controls\<rparr>"

definition get_voltages :: "simulation \<Rightarrow> real \<times> real" where
  "get_voltages s =
     (if mode s = ''manual''
      then (vertical_voltage (sliders s), horizontal_voltage (sliders s))
      else
        (let t = time s / 1000;
             Ah = horiz_amplitude (sliders s);
             Av = vert_amplitude (sliders s);
             fh = horiz_frequency (sliders s);
             fv = vert_frequency (sliders s);
             delta = (vert_phase (sliders s) - horiz_phase (sliders s)) * pi / 180;
             horiz_v = Ah * sin (2 * pi * fh * t);
             vert_v = Av * sin (2 * pi * fv * t + delta)
         in (vert_v, horiz_v)))"

definition get_voltages_prueba :: "simulation \<Rightarrow> real \<times> real" where
  "get_voltages_prueba s =
     (if mode s = ''manual''
      then (vertical_voltage (sliders s), horizontal_voltage (sliders s))
      else
        (let t = time s / 1000;
             vert_v = vert_amplitude (sliders s) *
                      sin (2 * pi * vert_frequency (sliders s) * t +
                           vert_phase (sliders s) * pi / 180);
             horiz_v = horiz_amplitude (sliders s) *
                       sin (2 * pi * horiz_frequency (sliders s) * t +
                            horiz_phase (sliders s) * pi / 180)
         in (vert_v, horiz_v)))"

text \<open>
  The body of the \<open>for _ in range(100)\<close> loop of \<open>update_physics\<close>: one integration
  step, then the screen test, the bounds test, the append and the reset.
\<close>

definition physics_substep :: "real \<Rightarrow> real \<Rightarrow> real \<Rightarrow> simulation \<Rightarrow> simulation" where
  "physics_substep dt vertical_v horizontal_v s =
     (let s1 = s\<lparr>electron := update dt (acceleration_voltage (sliders s))
                                vertical_v horizontal_v (electron s)\<rparr>
      in if has_hit_screen (electron s1)
         then
           (let s2 = (if is_within_screen_bounds (electron s1)
                      then
                        (let screen_pos = get_screen_position (electron s1);
                             brightness = min 1 (acceleration_voltage (sliders s1) / 4000)
                         in s1\<lparr>screen_traces :=
                                 deque_append 5000 (screen_traces s1)
                                   \<lparr>trace_x = fst screen_pos, trace_y = snd screen_pos,
                                    trace_time = time s1, trace_brightness = brightness\<rparr>\<rparr>)
                      else s1)
            in s2\<lparr>electron := reset (electron s2)\<rparr>)
         else s1)"

fun physics_loop :: "nat \<Rightarrow> real \<Rightarrow> real \<Rightarrow> real \<Rightarrow> simulation \<Rightarrow> simulation" where
  "physics_loop 0 dt vertical_v horizontal_v s = s"
| "physics_loop (Suc n) dt vertical_v horizontal_v s =
     physics_loop n dt vertical_v horizontal_v (physics_substep dt vertical_v horizontal_v s)"

text \<open>The integration step \<open>dt = 2e-9\<close> seconds that both variants of \<open>update_physics\<close> set.\<close>

definition physics_dt :: real where "physics_dt = 2 / 10 ^ 9"

text \<open>
  \<open>update_physics\<close> of Simul.py calls \<open>self.clock.get_time()\<close>, the number of
  milliseconds pygame measured between the last two frame ticks. The reading comes from
  outside the program, so it is an argument of the model.
\<close>

definition update_physics :: "int \<Rightarrow> simulation \<Rightarrow> simulation" where
  "update_physics clock_get_time s =
     (if simulation_speed s = 0 then s
      else
        (let s1 = s\<lparr>time := time s + real_of_int (clock_get_time * simulation_speed s)\<rparr>;
             dt = physics_dt;
             (vertical_v, horizontal_v) = get_voltages s1
         in physics_loop 100 dt vertical_v horizontal_v s1))"

text \<open>One pass of the \<open>while self.running\<close> loop of \<open>run\<close>, without events and drawing.\<close>

definition run_frame :: "int \<Rightarrow> simulation \<Rightarrow> simulation" where
  "run_frame clock_get_time s =
     (let s1 = update_physics clock_get_time s
      in if simulation_speed s1 > 0 then s1\<lparr>time := time s1 + 16\<rparr> else s1)"

text \<open>
  simul\_prueba.py: the same loop body with its own \<open>Electron.update\<close>, and an
  \<open>update_physics\<close> that reads no clock.
\<close>

definition physics_substep_prueba ::
  "real \<Rightarrow> real \<Rightarrow> real \<Rightarrow> real \<Rightarrow> simulation \<Rightarrow> simulation" where
  "physics_substep_prueba dt vertical_v horizontal_v acc_voltage s =
     (let s1 = s\<lparr>electron := update_prueba dt acc_voltage vertical_v horizontal_v (electron s)\<rparr>
      in if has_hit_screen (electron s1)
         then
           (let s2 = (if is_within_screen_bounds (electron s1)
                      then
                        (let (sx, sy) = get_screen_position (electron s1);
                             brightness = min 1 (acc_voltage / 4000)
                         in s1\<lparr>screen_traces :=
                                 deque_append 5000 (screen_traces s1)
                                   \<lparr>trace_x = sx, trace_y = sy,
                                    trace_time = time s1, trace_brightness = brightness\<rparr>\<rparr>)
                      else s1)
            in s2\<lparr>electron := reset (electron s2)\<rparr>)
         else s1)"

fun physics_loop_prueba ::
  "nat \<Rightarrow> real \<Rightarrow> real \<Rightarrow> real \<Rightarrow> real \<Rightarrow> simulation \<Rightarrow> simulation" where
  "physics_loop_prueba 0 dt vertical_v horizontal_v acc_voltage s = s"
| "physics_loop_prueba (Suc n) dt vertical_v horizontal_v acc_voltage s =
     physics_loop_prueba n dt vertical_v horizontal_v acc_voltage
       (physics_substep_prueba dt vertical_v horizontal_v acc_voltage s)"

definition update_physics_prueba :: "simulation \<Rightarrow> simulation" where
  "update_physics_prueba s =
     (if simulation_speed s = 0 then s
      else
        (let dt = physics_dt;
             (vertical_v, horizontal_v) = get_voltages_prueba s;
             acc_voltage = acceleration_voltage (sliders s)
         in physics_loop_prueba 100 dt vertical_v horizontal_v acc_voltage s))"

definition run_frame_prueba :: "simulation \<Rightarrow> simulation" where
  "run_frame_prueba s =
     (let s1 = update_physics_prueba s
      in if simulation_speed s1 > 0 then s1\<lparr>time := time s1 + 16\<rparr> else s1)"

section \<open>The screen view\<close>

text \<open>
  The trace loop of \<open>draw_screen_view\<close> (the same in both variants). The view rectangle
  is \<open>Rect(240, 385, 650, 400)\<close>. \<open>view_rect.collidepoint\<close> belongs to pygame and is an
  argument of the model. For a trace that is drawn the model gives the values the body of
  the loop computes: the fade factor \<open>alpha\<close>, the pixel position \<open>screen_x\<close>,
  \<open>screen_y\<close>, and the two products \<open>255 * alpha * brightness\<close> and
  \<open>7 * alpha * brightness\<close> that the code hands to \<open>int()\<close> for the colour and the
  radius of the circle. A trace that is skipped draws nothing. The division
  \<open>age / (persistence * 2)\<close> is evaluated only when \<open>age < persistence * 2\<close>, and raises
  when the divisor is zero.
\<close>

record drawn =
  drawn_alpha :: real
  drawn_x :: real
  drawn_y :: real
  drawn_intensity :: real
  drawn_size :: real

definition center_x :: real where "center_x = real_of_int (240 + 650 div 2)"
definition center_y :: real where "center_y = real_of_int (385 + 400 div 2)"
definition scale_x :: real where "scale_x = (650 - 40) / SCREEN_SIZE"
definition scale_y :: real where "scale_y = (400 - 40) / SCREEN_SIZE"

definition draw_trace ::
  "(real \<Rightarrow> real \<Rightarrow> bool) \<Rightarrow> real \<Rightarrow> real \<Rightarrow> trace \<Rightarrow> py_error + drawn option" where
  "draw_trace collidepoint persistence_v current_time tr =
     (let age = current_time - trace_time tr
      in if age < persistence_v * 2
         then
           (if persistence_v * 2 = 0 then Inl ZeroDivisionError
            else
              (let alpha = max (1 / 10) (1 - age / (persistence_v * 2));
                   screen_x = center_x + (trace_x tr * scale_x);
                   screen_y = center_y - (trace_y tr * scale_y)
               in if collidepoint screen_x screen_y
                  then
                    (let brightness = trace_brightness tr
                     in Inr (Some \<lparr>drawn_alpha = alpha,
                                    drawn_x = screen_x, drawn_y = screen_y,
                                    drawn_intensity = 255 * alpha * brightness,
                                    drawn_size = 7 * alpha * brightness\<rparr>))
                  else Inr None))
         else Inr None)"

text \<open>
  The loop \<open>for trace in self.screen_traces\<close>, oldest trace first; an exception ends it.
  \<open>draw_screen_view\<close> reads the persistence slider, the time and the buffer, and assigns
  to no attribute of the simulation.
\<close>

fun draw_traces ::
  "(real \<Rightarrow> real \<Rightarrow> bool) \<Rightarrow> real \<Rightarrow> real \<Rightarrow> trace list \<Rightarrow> py_error + drawn list" where
  "draw_traces collidepoint persistence_v current_time [] = Inr []"
| "draw_traces collidepoint persistence_v current_time (tr # trs) =
     (case draw_trace collidepoint persistence_v current_time tr of
        Inl err \<Rightarrow> Inl err
      | Inr d \<Rightarrow>
          (case draw_traces collidepoint persistence_v current_time trs of
             Inl err \<Rightarrow> Inl err
           | Inr ds \<Rightarrow> Inr (case d of None \<Rightarrow> ds | Some c \<Rightarrow> c # ds)))"

definition draw_screen_view ::
  "(real \<Rightarrow> real \<Rightarrow> bool) \<Rightarrow> simulation \<Rightarrow> py_error + drawn list" where
  "draw_screen_view collidepoint s =
     (let persistence_v = persistence (sliders s);
          current_time = time s
      in draw_traces collidepoint persistence_v current_time (screen_traces s))"

text \<open>The display intensity the specification describes, for comparison.\<close>

definition spec_intensity :: "real \<Rightarrow> real \<Rightarrow> trace \<Rightarrow> real" where
  "spec_intensity persistence_v t_now tr =
     (let age = t_now - trace_time tr
      in trace_brightness tr * max 0 (1 - age / (2 * persistence_v)))"

section \<open>States used as examples\<close>

text \<open>
  An electron late in a transit, one step before the screen plane: the next step of
  \<open>physics_dt\<close> carries it from \<open>z = 0.30\<close> to \<open>z = 0.35\<close>, past the screen at
  \<open>0.33\<close>, and from \<open>x = 0.05\<close> to \<open>x = 0.10\<close>, which is exactly half of
  \<open>SCREEN_SIZE\<close>.
\<close>

definition e_edge :: electron where
  "e_edge = \<lparr>x = 5 / 100, y = 0, z = 30 / 100, vx = 25000000, vy = 0, vz = 25000000,
             path = [], initial_acceleration_done = True\<rparr>"

text \<open>A trace recorded at time 0 with full brightness, at the centre of the screen.\<close>

definition tr_old :: trace where
  "tr_old = \<lparr>trace_x = 0, trace_y = 0, trace_time = 0, trace_brightness = 1\<rparr>"

text \<open>
  The configuration \<open>setup_controls\<close> builds: manual mode, 2000 V of acceleration and no
  deflection voltage. \<open>default_vz\<close> is the axial velocity that voltage gives. An
  electron is \<open>in_flight\<close> on the axis when it has no transverse position or velocity
  and, once accelerated, moves at \<open>default_vz\<close>; a simulation is \<open>cruising\<close> when its
  acceleration slider is at 2000 V and its electron is in flight on the axis.
\<close>

definition default_vz :: real where
  "default_vz = sqrt (2 * ELECTRON_CHARGE * \<bar>2000\<bar> / ELECTRON_MASS)"

definition in_flight :: "electron \<Rightarrow> bool" where
  "in_flight e \<longleftrightarrow>
     x e = 0 \<and> y e = 0 \<and> vx e = 0 \<and> vy e = 0
     \<and> (initial_acceleration_done e \<longrightarrow> vz e = default_vz)"

definition cruising :: "simulation \<Rightarrow> bool" where
  "cruising s \<longleftrightarrow> acceleration_voltage (sliders s) = 2000 \<and> in_flight (electron s)"

definition centre_hit :: "real \<Rightarrow> trace" where
  "centre_hit t = \<lparr>trace_x = 0, trace_y = 0, trace_time = t, trace_brightness = 1 / 2\<rparr>"

text \<open>
  Two seconds into a run, with the default persistence of 500 ms: the buffer holds one
  trace recorded at time 0, which has faded. And a simulation whose buffer is full, with
  the electron one step before the edge of the screen.
\<close>

definition sim_faded :: simulation where
  "sim_faded = CRTSimulation_init\<lparr>time := 2000, screen_traces := [tr_old]\<rparr>"

definition sim_full :: simulation where
  "sim_full = CRTSimulation_init\<lparr>electron := e_edge, screen_traces := replicate 5000 tr_old\<rparr>"

section \<open>Facts about the constants and about one update\<close>

lemmas geometry_defs =
  SCREEN_SIZE_def PLATE_SEPARATION_def PLATE_LENGTH_def DISTANCE_TO_SCREEN_def
  DISTANCE_BETWEEN_PLATES_def DISTANCE_GUN_TO_PLATES_def

lemmas region_defs =
  vertical_plate_start_def vertical_plate_end_def
  horizontal_plate_start_def horizontal_plate_end_def

lemma initial_acceleration_fields [simp]:
  "x (initial_acceleration va e) = x e"
  "y (initial_acceleration va e) = y e"
  "z (initial_acceleration va e) = z e"
  "vx (initial_acceleration va e) = vx e"
  "vy (initial_acceleration va e) = vy e"
  by (simp_all add: initial_acceleration_def)

lemma vertical_field_fields [simp]:
  "x (vertical_field dt vv e) = x e"
  "y (vertical_field dt vv e) = y e"
  "z (vertical_field dt vv e) = z e"
  "vx (vertical_field dt vv e) = vx e"
  "vz (vertical_field dt vv e) = vz e"
  "initial_acceleration_done (vertical_field dt vv e) = initial_acceleration_done e"
  by (simp_all add: vertical_field_def)

lemma horizontal_field_fields [simp]:
  "x (horizontal_field dt hv e) = x e"
  "y (horizontal_field dt hv e) = y e"
  "z (horizontal_field dt hv e) = z e"
  "vy (horizontal_field dt hv e) = vy e"
  "vz (horizontal_field dt hv e) = vz e"
  "initial_acceleration_done (horizontal_field dt hv e) = initial_acceleration_done e"
  by (simp_all add: horizontal_field_def)

lemma kinematics_fields [simp]:
  "x (kinematics dt e) = x e + vx e * dt"
  "y (kinematics dt e) = y e + vy e * dt"
  "z (kinematics dt e) = z e + vz e * dt"
  "vx (kinematics dt e) = vx e"
  "vy (kinematics dt e) = vy e"
  "vz (kinematics dt e) = vz e"
  "initial_acceleration_done (kinematics dt e) = initial_acceleration_done e"
  by (simp_all add: kinematics_def Let_def)

lemma update_vz:
  "vz (update dt va vv hv e) =
     (if \<not> initial_acceleration_done e \<and> \<bar>va\<bar> > 0
      then sqrt (2 * ELECTRON_CHARGE * \<bar>va\<bar> / ELECTRON_MASS) else vz e)"
  by (simp add: update_def initial_acceleration_def)

lemma update_done:
  "initial_acceleration_done (update dt va vv hv e) =
     (initial_acceleration_done e \<or> \<bar>va\<bar> > 0)"
  by (simp add: update_def initial_acceleration_def)

lemma update_vy:
  "vy (update dt va vv hv e) =
     (if vertical_plate_start \<le> z e \<and> z e \<le> vertical_plate_end
         \<and> \<bar>y e\<bar> < PLATE_SEPARATION / 2
      then vy e + acceleration_y vv * dt else vy e)"
  by (simp add: update_def vertical_field_def)

lemma update_vx:
  "vx (update dt va vv hv e) =
     (if horizontal_plate_start \<le> z e \<and> z e \<le> horizontal_plate_end
         \<and> \<bar>x e\<bar> < PLATE_SEPARATION / 2
      then vx e + acceleration_x hv * dt else vx e)"
  by (simp add: update_def horizontal_field_def)

lemma update_x: "x (update dt va vv hv e) = x e + vx (update dt va vv hv e) * dt"
  by (simp add: update_def)

lemma update_y: "y (update dt va vv hv e) = y e + vy (update dt va vv hv e) * dt"
  by (simp add: update_def)

lemma update_z: "z (update dt va vv hv e) = z e + vz (update dt va vv hv e) * dt"
  by (simp add: update_def)

lemma Electron_init_fields:
  "x Electron_init = 0" "y Electron_init = 0" "z Electron_init = 1 / 1000"
  "vx Electron_init = 0" "vy Electron_init = 0" "vz Electron_init = 0"
  "path Electron_init = []" "\<not> initial_acceleration_done Electron_init"
  by (simp_all add: Electron_init_def reset_def)

lemma reset_fields:
  "x (reset e) = 0" "y (reset e) = 0" "z (reset e) = 1 / 1000"
  "vx (reset e) = 0" "vy (reset e) = 0" "vz (reset e) = 0"
  "path (reset e) = []" "\<not> initial_acceleration_done (reset e)"
  by (simp_all add: reset_def)

section \<open>The axial velocity along a transit\<close>

lemma updates_done_vz:
  "initial_acceleration_done e \<Longrightarrow>
     vz (updates cs e) = vz e \<and> initial_acceleration_done (updates cs e)"
proof (induction cs arbitrary: e)
  case Nil
  then show ?case by simp
next
  case (Cons c cs)
  obtain dt va vv hv where c: "c = (dt, va, vv, hv)" by (cases c) auto
  from Cons.prems have d: "initial_acceleration_done (update dt va vv hv e)"
    and v: "vz (update dt va vv hv e) = vz e"
    by (simp_all add: update_done update_vz)
  from Cons.IH [OF d] v show ?case by (simp add: c)
qed

lemma update_vz_nonneg: "0 \<le> vz e \<Longrightarrow> 0 \<le> vz (update dt va vv hv e)"
  by (simp add: update_vz ELECTRON_CHARGE_def ELECTRON_MASS_def)

lemma updates_vz_nonneg: "0 \<le> vz e \<Longrightarrow> 0 \<le> vz (updates cs e)"
proof (induction cs arbitrary: e)
  case Nil
  then show ?case by simp
next
  case (Cons c cs)
  obtain dt va vv hv where c: "c = (dt, va, vv, hv)" by (cases c) auto
  from Cons.prems have "0 \<le> vz (update dt va vv hv e)" by (rule update_vz_nonneg)
  then show ?case unfolding c updates.simps by (rule Cons.IH)
qed

lemma update_z_mono: "0 \<le> vz e \<Longrightarrow> 0 \<le> dt \<Longrightarrow> z e \<le> z (update dt va vv hv e)"
  using update_vz_nonneg [of e dt va vv hv] by (simp add: update_z)

lemma updates_z_mono:
  "0 \<le> vz e \<Longrightarrow> \<forall>c \<in> set cs. 0 \<le> fst c \<Longrightarrow> z e \<le> z (updates cs e)"
proof (induction cs arbitrary: e)
  case Nil
  then show ?case by simp
next
  case (Cons c cs)
  obtain dt va vv hv where c: "c = (dt, va, vv, hv)" by (cases c) auto
  from Cons.prems c have dt: "0 \<le> dt" by simp
  have v: "0 \<le> vz (update dt va vv hv e)" using Cons.prems(1) by (rule update_vz_nonneg)
  have "z e \<le> z (update dt va vv hv e)" using Cons.prems(1) dt by (rule update_z_mono)
  also have "\<dots> \<le> z (updates cs (update dt va vv hv e))"
    using v Cons.prems(2) by (intro Cons.IH) simp_all
  finally show ?case by (simp add: c)
qed

text \<open>
  Claim C2. In a transit the axial velocity is assigned once. After \<open>reset\<close> the impulse
  flag is clear. On an update that finds the flag clear and \<open>|Va| > 0\<close>, \<open>vz\<close> becomes
  \<open>sqrt(2 q |Va| / m)\<close>, and it keeps that value through every later sequence of
  updates of the transit, whatever acceleration voltages those calls pass. In general,
  once the flag is set no sequence of updates changes \<open>vz\<close>.
\<close>

theorem axial_velocity_set_once:
  "\<not> initial_acceleration_done (reset e0)
   \<and> (\<not> initial_acceleration_done e \<and> \<bar>va\<bar> > 0 \<longrightarrow>
        vz (update dt va vv hv e) = sqrt (2 * ELECTRON_CHARGE * \<bar>va\<bar> / ELECTRON_MASS)
        \<and> vz (updates cs (update dt va vv hv e))
            = sqrt (2 * ELECTRON_CHARGE * \<bar>va\<bar> / ELECTRON_MASS))
   \<and> (initial_acceleration_done e' \<longrightarrow> vz (updates cs e') = vz e')"
proof (intro conjI impI)
  show "\<not> initial_acceleration_done (reset e0)" by (simp add: reset_fields)
next
  assume a: "\<not> initial_acceleration_done e \<and> \<bar>va\<bar> > 0"
  then show first: "vz (update dt va vv hv e) = sqrt (2 * ELECTRON_CHARGE * \<bar>va\<bar> / ELECTRON_MASS)"
    by (simp add: update_vz)
  from a have "initial_acceleration_done (update dt va vv hv e)" by (simp add: update_done)
  from updates_done_vz [OF this, of cs] first
  show "vz (updates cs (update dt va vv hv e))
          = sqrt (2 * ELECTRON_CHARGE * \<bar>va\<bar> / ELECTRON_MASS)"
    by simp
next
  assume "initial_acceleration_done e'"
  then show "vz (updates cs e') = vz e'" by (simp add: updates_done_vz)
qed

theorem axial_velocity_set_once_witness:
  "vz (update (2 / 10 ^ 9) 2000 0 0 Electron_init)
     = sqrt (2 * ELECTRON_CHARGE * \<bar>2000\<bar> / ELECTRON_MASS)
   \<and> vz (updates [(2 / 10 ^ 9, 500, 10, 20), (2 / 10 ^ 9, 5000, 0, 0)]
           (update (2 / 10 ^ 9) 2000 0 0 Electron_init))
     = sqrt (2 * ELECTRON_CHARGE * \<bar>2000\<bar> / ELECTRON_MASS)
   \<and> vz (updates [(2 / 10 ^ 9, 500, 10, 20)] (update (2 / 10 ^ 9) 2000 0 0 Electron_init))
     = vz (update (2 / 10 ^ 9) 2000 0 0 Electron_init)"
proof -
  have h1: "\<not> initial_acceleration_done Electron_init \<and> \<bar>2000::real\<bar> > 0"
    by (simp add: Electron_init_fields)
  have h2: "initial_acceleration_done (update (2 / 10 ^ 9) 2000 0 0 Electron_init)"
    by (simp add: update_done)
  from axial_velocity_set_once
         [of Electron_init Electron_init 2000 "2 / 10 ^ 9" 0 0
             "[(2 / 10 ^ 9, 500, 10, 20), (2 / 10 ^ 9, 5000, 0, 0)]"
             "update (2 / 10 ^ 9) 2000 0 0 Electron_init"]
       axial_velocity_set_once
         [of Electron_init Electron_init 2000 "2 / 10 ^ 9" 0 0
             "[(2 / 10 ^ 9, 500, 10, 20)]"
             "update (2 / 10 ^ 9) 2000 0 0 Electron_init"]
       h1 h2
  show ?thesis by blast
qed

text \<open>
  Claim C10. Along every transit that starts from \<open>reset\<close> and is driven by updates
  whose \<open>dt\<close> is not negative, the axial velocity \<open>vz\<close> is not negative, the axial
  position \<open>z\<close> is at least the one \<open>reset\<close> gave, and one more such update does not
  decrease \<open>z\<close>.
\<close>

theorem axial_motion_never_backwards:
  assumes "\<forall>c \<in> set cs. 0 \<le> fst c" and "0 \<le> dt"
  shows "0 \<le> vz (updates cs (reset e0))
       \<and> z (reset e0) \<le> z (updates cs (reset e0))
       \<and> z (updates cs (reset e0)) \<le> z (update dt va vv hv (updates cs (reset e0)))"
proof -
  have r: "0 \<le> vz (reset e0)" by (simp add: reset_fields)
  have v: "0 \<le> vz (updates cs (reset e0))" using r by (rule updates_vz_nonneg)
  show ?thesis using v updates_z_mono [OF r assms(1)] update_z_mono [OF v assms(2)] by simp
qed

theorem axial_motion_never_backwards_witness:
  "0 \<le> vz (updates [(2 / 10 ^ 9, 2000, 0, 0), (2 / 10 ^ 9, 500, 10, 20)] (reset Electron_init))
   \<and> z (reset Electron_init)
       \<le> z (updates [(2 / 10 ^ 9, 2000, 0, 0), (2 / 10 ^ 9, 500, 10, 20)] (reset Electron_init))
   \<and> z (updates [(2 / 10 ^ 9, 2000, 0, 0), (2 / 10 ^ 9, 500, 10, 20)] (reset Electron_init))
       \<le> z (update (2 / 10 ^ 9) 2000 0 0
              (updates [(2 / 10 ^ 9, 2000, 0, 0), (2 / 10 ^ 9, 500, 10, 20)] (reset Electron_init)))"
proof -
  have h1: "\<forall>c \<in> set [(2 / 10 ^ 9, 2000, 0, 0), (2 / 10 ^ 9, 500, 10, 20::real)]. (0::real) \<le> fst c"
    by simp
  have h2: "(0::real) \<le> 2 / 10 ^ 9" by simp
  from axial_motion_never_backwards [OF h1 h2, of Electron_init 2000 0 0]
  show ?thesis by blast
qed

section \<open>Field impulses and the order of one integration step\<close>

text \<open>
  Claim C7. In one call of \<open>Electron.update\<close> the vertical velocity \<open>vy\<close> changes, by
  \<open>acceleration_y * dt\<close>, exactly when \<open>z\<close> lies in the interval of the vertical plates
  \<open>[a, a + l]\<close> and \<open>|y| < d / 2\<close>; the horizontal velocity \<open>vx\<close> changes, by
  \<open>acceleration_x * dt\<close>, exactly when \<open>z\<close> lies in the interval of the horizontal plates
  \<open>[a + l + g, a + l + g + l]\<close> and \<open>|x| < d / 2\<close>. In every other case that velocity is
  the one the call found. The tests read the position the call found, before it moves.
\<close>

theorem field_impulse_between_plates:
  "vy (update dt va vv hv e) =
     (if DISTANCE_GUN_TO_PLATES \<le> z e \<and> z e \<le> DISTANCE_GUN_TO_PLATES + PLATE_LENGTH
         \<and> \<bar>y e\<bar> < PLATE_SEPARATION / 2
      then vy e + acceleration_y vv * dt else vy e)
   \<and> vx (update dt va vv hv e) =
     (if DISTANCE_GUN_TO_PLATES + PLATE_LENGTH + DISTANCE_BETWEEN_PLATES \<le> z e
         \<and> z e \<le> DISTANCE_GUN_TO_PLATES + PLATE_LENGTH + DISTANCE_BETWEEN_PLATES + PLATE_LENGTH
         \<and> \<bar>x e\<bar> < PLATE_SEPARATION / 2
      then vx e + acceleration_x hv * dt else vx e)"
  by (simp add: update_vy update_vx region_defs)

theorem field_impulse_between_plates_witness:
  "vy (update physics_dt 2000 100 50 (Electron_init\<lparr>z := 6 / 100\<rparr>)) = acceleration_y 100 * physics_dt
   \<and> vx (update physics_dt 2000 100 50 (Electron_init\<lparr>z := 6 / 100\<rparr>)) = 0
   \<and> vy (update physics_dt 2000 100 50 (Electron_init\<lparr>z := 6 / 100, y := 1 / 100\<rparr>)) = 0
   \<and> vx (update physics_dt 2000 100 50 (Electron_init\<lparr>z := 15 / 100\<rparr>)) = acceleration_x 50 * physics_dt
   \<and> vy (update physics_dt 2000 100 50 (Electron_init\<lparr>z := 15 / 100\<rparr>)) = 0
   \<and> vx (update physics_dt 2000 100 50 (Electron_init\<lparr>z := 15 / 100, x := - (1 / 100)\<rparr>)) = 0
   \<and> vy (update physics_dt 2000 100 50 (Electron_init\<lparr>z := 12 / 100\<rparr>)) = 0
   \<and> vx (update physics_dt 2000 100 50 (Electron_init\<lparr>z := 12 / 100\<rparr>)) = 0"
  using field_impulse_between_plates [of physics_dt 2000 100 50 "Electron_init\<lparr>z := 6 / 100\<rparr>"]
    field_impulse_between_plates [of physics_dt 2000 100 50 "Electron_init\<lparr>z := 6 / 100, y := 1 / 100\<rparr>"]
    field_impulse_between_plates [of physics_dt 2000 100 50 "Electron_init\<lparr>z := 15 / 100\<rparr>"]
    field_impulse_between_plates [of physics_dt 2000 100 50 "Electron_init\<lparr>z := 15 / 100, x := - (1 / 100)\<rparr>"]
    field_impulse_between_plates [of physics_dt 2000 100 50 "Electron_init\<lparr>z := 12 / 100\<rparr>"]
  by (simp add: geometry_defs Electron_init_fields)

text \<open>
  Claim C8. One call of \<open>Electron.update\<close> moves each coordinate by the velocity the same
  call has just computed, times \<open>dt\<close>: the velocities are updated first, the positions
  after. Between the plates the new position therefore already contains the impulse of
  this step, \<open>(v + a * dt) * dt\<close>, and on the first accelerated step \<open>z\<close> already moves
  with the axial velocity just assigned.
\<close>

theorem velocity_before_position:
  "x (update dt va vv hv e) = x e + vx (update dt va vv hv e) * dt
   \<and> y (update dt va vv hv e) = y e + vy (update dt va vv hv e) * dt
   \<and> z (update dt va vv hv e) = z e + vz (update dt va vv hv e) * dt
   \<and> (horizontal_plate_start \<le> z e \<and> z e \<le> horizontal_plate_end \<and> \<bar>x e\<bar> < PLATE_SEPARATION / 2
        \<longrightarrow> x (update dt va vv hv e) = x e + (vx e + acceleration_x hv * dt) * dt)
   \<and> (vertical_plate_start \<le> z e \<and> z e \<le> vertical_plate_end \<and> \<bar>y e\<bar> < PLATE_SEPARATION / 2
        \<longrightarrow> y (update dt va vv hv e) = y e + (vy e + acceleration_y vv * dt) * dt)
   \<and> (\<not> initial_acceleration_done e \<and> \<bar>va\<bar> > 0
        \<longrightarrow> z (update dt va vv hv e)
            = z e + sqrt (2 * ELECTRON_CHARGE * \<bar>va\<bar> / ELECTRON_MASS) * dt)"
  by (simp add: update_x update_y update_z update_vx update_vy update_vz)

theorem velocity_before_position_witness:
  "y (update physics_dt 2000 100 50 (Electron_init\<lparr>z := 6 / 100\<rparr>))
     = acceleration_y 100 * physics_dt * physics_dt
   \<and> z (update physics_dt 2000 100 50 (Electron_init\<lparr>z := 6 / 100\<rparr>))
     = 6 / 100 + default_vz * physics_dt
   \<and> x (update physics_dt 2000 100 50 (Electron_init\<lparr>z := 15 / 100\<rparr>))
     = acceleration_x 50 * physics_dt * physics_dt"
proof -
  let ?v = "Electron_init\<lparr>z := 6 / 100\<rparr>" and ?h = "Electron_init\<lparr>z := 15 / 100\<rparr>"
  have fv: "y ?v = 0" "vy ?v = 0" "z ?v = 6 / 100" and fh: "x ?h = 0" "vx ?h = 0"
    by (simp_all add: Electron_init_fields)
  have v: "vertical_plate_start \<le> z ?v \<and> z ?v \<le> vertical_plate_end
         \<and> \<bar>y ?v\<bar> < PLATE_SEPARATION / 2"
    by (simp add: region_defs geometry_defs Electron_init_fields)
  have h: "horizontal_plate_start \<le> z ?h \<and> z ?h \<le> horizontal_plate_end
         \<and> \<bar>x ?h\<bar> < PLATE_SEPARATION / 2"
    by (simp add: region_defs geometry_defs Electron_init_fields)
  have a: "\<not> initial_acceleration_done ?v \<and> \<bar>2000::real\<bar> > 0"
    by (simp add: Electron_init_fields)
  from velocity_before_position [of physics_dt 2000 100 50 ?v] v a
  have 1: "y (update physics_dt 2000 100 50 ?v)
             = y ?v + (vy ?v + acceleration_y 100 * physics_dt) * physics_dt"
    and 2: "z (update physics_dt 2000 100 50 ?v)
             = z ?v + sqrt (2 * ELECTRON_CHARGE * \<bar>2000\<bar> / ELECTRON_MASS) * physics_dt"
    by blast+
  from velocity_before_position [of physics_dt 2000 100 50 ?h] h
  have 3: "x (update physics_dt 2000 100 50 ?h)
             = x ?h + (vx ?h + acceleration_x 50 * physics_dt) * physics_dt"
    by blast
  show ?thesis
    unfolding 1 2 3 fv fh default_vz_def by simp
qed

section \<open>The sign of the deflection in the two variants\<close>

lemma acceleration_y_eq:
  "acceleration_y v = - (ELECTRON_CHARGE * v / (PLATE_SEPARATION * ELECTRON_MASS))"
  by (simp add: acceleration_y_def Let_def)
lemma acceleration_x_eq:
  "acceleration_x v = - (ELECTRON_CHARGE * v / (PLATE_SEPARATION * ELECTRON_MASS))"
  by (simp add: acceleration_x_def Let_def)
lemma ay_prueba_eq:
  "ay_prueba v = ELECTRON_CHARGE_MAG * v / (PLATE_SEPARATION * ELECTRON_MASS)"
  by (simp add: ay_prueba_def Let_def ELECTRON_CHARGE_prueba_def ELECTRON_CHARGE_MAG_def)
lemma ax_prueba_eq:
  "ax_prueba v = ELECTRON_CHARGE_MAG * v / (PLATE_SEPARATION * ELECTRON_MASS)"
  by (simp add: ax_prueba_def Let_def ELECTRON_CHARGE_prueba_def ELECTRON_CHARGE_MAG_def)

lemma charge_mag: "ELECTRON_CHARGE_MAG = ELECTRON_CHARGE"
  by (simp add: ELECTRON_CHARGE_MAG_def ELECTRON_CHARGE_def)

lemma accel_unit_pos: "0 < ELECTRON_CHARGE / (PLATE_SEPARATION * ELECTRON_MASS)"
  by (simp add: ELECTRON_CHARGE_def PLATE_SEPARATION_def ELECTRON_MASS_def)

lemma initial_acceleration_prueba_fields [simp]:
  "x (initial_acceleration_prueba va e) = x e"
  "y (initial_acceleration_prueba va e) = y e"
  "z (initial_acceleration_prueba va e) = z e"
  "vx (initial_acceleration_prueba va e) = vx e"
  "vy (initial_acceleration_prueba va e) = vy e"
  by (simp_all add: initial_acceleration_prueba_def)

lemma vertical_field_prueba_fields [simp]:
  "x (vertical_field_prueba dt vv e) = x e"
  "y (vertical_field_prueba dt vv e) = y e"
  "z (vertical_field_prueba dt vv e) = z e"
  "vx (vertical_field_prueba dt vv e) = vx e"
  "vz (vertical_field_prueba dt vv e) = vz e"
  "initial_acceleration_done (vertical_field_prueba dt vv e) = initial_acceleration_done e"
  by (simp_all add: vertical_field_prueba_def)

lemma horizontal_field_prueba_fields [simp]:
  "x (horizontal_field_prueba dt hv e) = x e"
  "y (horizontal_field_prueba dt hv e) = y e"
  "z (horizontal_field_prueba dt hv e) = z e"
  "vy (horizontal_field_prueba dt hv e) = vy e"
  "vz (horizontal_field_prueba dt hv e) = vz e"
  "initial_acceleration_done (horizontal_field_prueba dt hv e) = initial_acceleration_done e"
  by (simp_all add: horizontal_field_prueba_def)

lemma update_prueba_vy:
  "vy (update_prueba dt va vv hv e) =
     (if vertical_plate_start \<le> z e \<and> z e \<le> vertical_plate_end
         \<and> \<bar>y e\<bar> < PLATE_SEPARATION / 2
      then vy e + ay_prueba vv * dt else vy e)"
  by (simp add: update_prueba_def vertical_field_prueba_def)

lemma update_prueba_vx:
  "vx (update_prueba dt va vv hv e) =
     (if horizontal_plate_start \<le> z e \<and> z e \<le> horizontal_plate_end
         \<and> \<bar>x e\<bar> < PLATE_SEPARATION / 2
      then vx e + ax_prueba hv * dt else vx e)"
  by (simp add: update_prueba_def horizontal_field_prueba_def)

lemma accel_opposite:
  "acceleration_y v = - ay_prueba v" "acceleration_x v = - ax_prueba v"
  "acceleration_x v = acceleration_y v" "ax_prueba v = ay_prueba v"
  by (simp_all add: acceleration_y_eq acceleration_x_eq ay_prueba_eq ax_prueba_eq charge_mag)

lemma accel_abs:
  "\<bar>acceleration_y v\<bar> = ELECTRON_CHARGE * \<bar>v\<bar> / (PLATE_SEPARATION * ELECTRON_MASS)"
  "\<bar>ay_prueba v\<bar> = ELECTRON_CHARGE * \<bar>v\<bar> / (PLATE_SEPARATION * ELECTRON_MASS)"
  by (simp_all add: acceleration_y_eq ay_prueba_eq charge_mag abs_mult
        ELECTRON_CHARGE_def PLATE_SEPARATION_def ELECTRON_MASS_def)

lemma accel_sgn:
  "sgn (ay_prueba v) = sgn v" "sgn (acceleration_y v) = - sgn v"
  by (simp_all add: acceleration_y_eq ay_prueba_eq charge_mag sgn_mult sgn_divide
        ELECTRON_CHARGE_def PLATE_SEPARATION_def ELECTRON_MASS_def)

text \<open>
  Claim C5. For a plate voltage \<open>V \<noteq> 0\<close>, the transverse acceleration Simul.py computes
  and the one simul\_prueba.py computes are opposite numbers of the same magnitude
  \<open>q |V| / (d m)\<close>: Simul.py accelerates against the sign of \<open>V\<close>, simul\_prueba.py along
  it. Each variant uses the same expression on both axes, and these are the accelerations
  by which \<open>update\<close> and \<open>update_prueba\<close> change \<open>vy\<close> between the vertical plates and
  \<open>vx\<close> between the horizontal plates.
\<close>

theorem sign_conventions_opposite:
  assumes "V \<noteq> 0"
  shows "acceleration_y V = - ay_prueba V \<and> acceleration_x V = - ax_prueba V
       \<and> \<bar>acceleration_y V\<bar> = ELECTRON_CHARGE * \<bar>V\<bar> / (PLATE_SEPARATION * ELECTRON_MASS)
       \<and> \<bar>ay_prueba V\<bar> = ELECTRON_CHARGE * \<bar>V\<bar> / (PLATE_SEPARATION * ELECTRON_MASS)
       \<and> \<bar>acceleration_x V\<bar> = ELECTRON_CHARGE * \<bar>V\<bar> / (PLATE_SEPARATION * ELECTRON_MASS)
       \<and> \<bar>ax_prueba V\<bar> = ELECTRON_CHARGE * \<bar>V\<bar> / (PLATE_SEPARATION * ELECTRON_MASS)
       \<and> sgn (acceleration_y V) = - sgn V \<and> sgn (acceleration_x V) = - sgn V
       \<and> sgn (ay_prueba V) = sgn V \<and> sgn (ax_prueba V) = sgn V
       \<and> acceleration_y V \<noteq> 0 \<and> acceleration_x V \<noteq> 0
       \<and> (vertical_plate_start \<le> z e \<and> z e \<le> vertical_plate_end \<and> \<bar>y e\<bar> < PLATE_SEPARATION / 2
            \<longrightarrow> vy (update dt va V hv e) = vy e + acceleration_y V * dt
              \<and> vy (update_prueba dt va V hv e) = vy e + ay_prueba V * dt)
       \<and> (horizontal_plate_start \<le> z e' \<and> z e' \<le> horizontal_plate_end
            \<and> \<bar>x e'\<bar> < PLATE_SEPARATION / 2
            \<longrightarrow> vx (update dt va vv V e') = vx e' + acceleration_x V * dt
              \<and> vx (update_prueba dt va vv V e') = vx e' + ax_prueba V * dt)"
proof -
  have nz: "acceleration_y V \<noteq> 0"
    using assms accel_abs(1) [of V] accel_unit_pos by auto
  have x: "acceleration_x V = acceleration_y V" and px: "ax_prueba V = ay_prueba V"
    by (rule accel_opposite)+
  show ?thesis
    unfolding x px
    using nz accel_opposite(1) [of V] accel_abs [of V] accel_sgn [of V]
    by (simp add: update_vy update_vx update_prueba_vy update_prueba_vx x px)
qed

theorem sign_conventions_opposite_witness:
  "acceleration_y 100 = - ay_prueba 100 \<and> acceleration_x 100 = - ax_prueba 100
   \<and> sgn (acceleration_y 100) = - 1 \<and> sgn (ay_prueba 100) = 1
   \<and> vy (update (2 / 10 ^ 9) 2000 100 0 (Electron_init\<lparr>z := 6 / 100\<rparr>))
       = acceleration_y 100 * (2 / 10 ^ 9)
   \<and> vy (update_prueba (2 / 10 ^ 9) 2000 100 0 (Electron_init\<lparr>z := 6 / 100\<rparr>))
       = ay_prueba 100 * (2 / 10 ^ 9)
   \<and> vx (update (2 / 10 ^ 9) 2000 0 100 (Electron_init\<lparr>z := 15 / 100\<rparr>))
       = acceleration_x 100 * (2 / 10 ^ 9)
   \<and> vx (update_prueba (2 / 10 ^ 9) 2000 0 100 (Electron_init\<lparr>z := 15 / 100\<rparr>))
       = ax_prueba 100 * (2 / 10 ^ 9)"
proof -
  have h: "(100::real) \<noteq> 0" by simp
  have v: "vertical_plate_start \<le> z (Electron_init\<lparr>z := 6 / 100\<rparr>)
         \<and> z (Electron_init\<lparr>z := 6 / 100\<rparr>) \<le> vertical_plate_end
         \<and> \<bar>y (Electron_init\<lparr>z := 6 / 100\<rparr>)\<bar> < PLATE_SEPARATION / 2"
    by (simp add: region_defs geometry_defs Electron_init_fields)
  have hr: "horizontal_plate_start \<le> z (Electron_init\<lparr>z := 15 / 100\<rparr>)
         \<and> z (Electron_init\<lparr>z := 15 / 100\<rparr>) \<le> horizontal_plate_end
         \<and> \<bar>x (Electron_init\<lparr>z := 15 / 100\<rparr>)\<bar> < PLATE_SEPARATION / 2"
    by (simp add: region_defs geometry_defs Electron_init_fields)
  have i: "vy (Electron_init\<lparr>z := 6 / 100\<rparr>) = 0" "vx (Electron_init\<lparr>z := 15 / 100\<rparr>) = 0"
    by (simp_all add: Electron_init_fields)
  from sign_conventions_opposite [OF h, of "Electron_init\<lparr>z := 6 / 100\<rparr>" "2 / 10 ^ 9" 2000 0
         "Electron_init\<lparr>z := 15 / 100\<rparr>" 0] v hr i
  show ?thesis by simp
qed

section \<open>The trace buffer and the loop of update\_physics\<close>

lemma deque_append_drop:
  "deque_append n (drop (length xs - n) xs) v = drop (length (xs @ [v]) - n) (xs @ [v])"
proof (cases "length xs < n")
  case True
  then show ?thesis by (simp add: deque_append_def)
next
  case False
  then have le: "n \<le> length xs" by simp
  then have len: "length (drop (length xs - n) xs) = n" by simp
  have app: "drop (length xs - n) xs @ [v] = drop (length xs - n) (xs @ [v])"
    by simp
  have "deque_append n (drop (length xs - n) xs) v = tl (drop (length xs - n) xs @ [v])"
    using len by (simp add: deque_append_def)
  also have "\<dots> = drop (Suc (length xs - n)) (xs @ [v])"
    unfolding app by (simp only: drop_Suc tl_drop)
  also have "Suc (length xs - n) = length (xs @ [v]) - n"
    using le by (simp add: Suc_diff_le)
  finally show ?thesis .
qed

lemma foldl_deque_append:
  "foldl (deque_append n) [] evs = drop (length evs - n) evs"
proof (induction evs rule: rev_induct)
  case Nil
  then show ?case by simp
next
  case (snoc v evs)
  then show ?case by (simp add: deque_append_drop)
qed

lemma length_deque_append: "length d \<le> n \<Longrightarrow> length (deque_append n d v) \<le> n"
  by (simp add: deque_append_def Let_def)

lemma deque_append_full: "0 < n \<Longrightarrow> length d = n \<Longrightarrow> deque_append n d v = tl d @ [v]"
  by (cases d) (simp_all add: deque_append_def)

lemma deque_append_room: "length d < n \<Longrightarrow> deque_append n d v = d @ [v]"
  by (simp add: deque_append_def)


lemma physics_substep_traces:
  "screen_traces (physics_substep dt vv hv s) =
     (if has_hit_screen (update dt (acceleration_voltage (sliders s)) vv hv (electron s))
         \<and> is_within_screen_bounds (update dt (acceleration_voltage (sliders s)) vv hv (electron s))
      then deque_append 5000 (screen_traces s)
             \<lparr>trace_x = x (update dt (acceleration_voltage (sliders s)) vv hv (electron s)),
              trace_y = y (update dt (acceleration_voltage (sliders s)) vv hv (electron s)),
              trace_time = time s,
              trace_brightness = min 1 (acceleration_voltage (sliders s) / 4000)\<rparr>
      else screen_traces s)"
  by (simp add: physics_substep_def Let_def get_screen_position_def)

lemma physics_substep_electron:
  "electron (physics_substep dt vv hv s) =
     (if has_hit_screen (update dt (acceleration_voltage (sliders s)) vv hv (electron s))
      then reset (update dt (acceleration_voltage (sliders s)) vv hv (electron s))
      else update dt (acceleration_voltage (sliders s)) vv hv (electron s))"
  by (simp add: physics_substep_def Let_def)

lemma physics_substep_unchanged [simp]:
  "time (physics_substep dt vv hv s) = time s"
  "sliders (physics_substep dt vv hv s) = sliders s"
  "mode (physics_substep dt vv hv s) = mode s"
  "simulation_speed (physics_substep dt vv hv s) = simulation_speed s"
  by (simp_all add: physics_substep_def Let_def)

lemma physics_loop_unchanged [simp]:
  "time (physics_loop n dt vv hv s) = time s"
  "sliders (physics_loop n dt vv hv s) = sliders s"
  "mode (physics_loop n dt vv hv s) = mode s"
  "simulation_speed (physics_loop n dt vv hv s) = simulation_speed s"
  by (induction n arbitrary: s) simp_all

lemma physics_substep_length:
  "length (screen_traces s) \<le> 5000 \<Longrightarrow> length (screen_traces (physics_substep dt vv hv s)) \<le> 5000"
  by (simp add: physics_substep_traces length_deque_append)

lemma physics_loop_length:
  "length (screen_traces s) \<le> 5000 \<Longrightarrow> length (screen_traces (physics_loop n dt vv hv s)) \<le> 5000"
  by (induction n arbitrary: s) (simp_all add: physics_substep_length)

lemma update_physics_length:
  "length (screen_traces s) \<le> 5000 \<Longrightarrow> length (screen_traces (update_physics c s)) \<le> 5000"
  by (simp add: update_physics_def Let_def physics_loop_length split: prod.split)

lemma physics_substep_traces_cases:
  "screen_traces (physics_substep dt vv hv s) = screen_traces s
   \<or> (\<exists>ev. screen_traces (physics_substep dt vv hv s)
               = deque_append 5000 (screen_traces s) ev)"
  unfolding physics_substep_traces by auto

lemma physics_loop_Suc:
  "physics_loop (Suc n) dt vv hv s = physics_substep dt vv hv (physics_loop n dt vv hv s)"
  by (induction n arbitrary: s) simp_all

lemma physics_loop_add:
  "physics_loop (m + n) dt vv hv s = physics_loop n dt vv hv (physics_loop m dt vv hv s)"
  by (induction m arbitrary: s) simp_all

text \<open>
  The buffer after a run of the loop is a window on the old buffer followed by the events
  of the run: an old trace leaves it only when more than 5000 events stand from it to the
  end.
\<close>

lemma physics_loop_traces:
  assumes "length (screen_traces s) \<le> 5000"
  shows "\<exists>evs. length evs \<le> n
           \<and> screen_traces (physics_loop n dt vv hv s)
               = drop (length (screen_traces s @ evs) - 5000) (screen_traces s @ evs)"
proof (induction n)
  case 0
  have "length ([] :: trace list) \<le> 0
        \<and> screen_traces (physics_loop 0 dt vv hv s)
            = drop (length (screen_traces s @ []) - 5000) (screen_traces s @ [])"
    using assms by simp
  then show ?case by blast
next
  case (Suc n)
  then obtain evs where len: "length evs \<le> n"
    and tr: "screen_traces (physics_loop n dt vv hv s)
               = drop (length (screen_traces s @ evs) - 5000) (screen_traces s @ evs)"
    by blast
  let ?t = "physics_loop n dt vv hv s"
  from physics_substep_traces_cases [of dt vv hv ?t]
  show ?case
  proof
    assume same: "screen_traces (physics_substep dt vv hv ?t) = screen_traces ?t"
    have "screen_traces (physics_loop (Suc n) dt vv hv s)
            = drop (length (screen_traces s @ evs) - 5000) (screen_traces s @ evs)"
      unfolding physics_loop_Suc same by (rule tr)
    moreover from len have "length evs \<le> Suc n" by simp
    ultimately show ?thesis by blast
  next
    assume "\<exists>ev. screen_traces (physics_substep dt vv hv ?t)
                   = deque_append 5000 (screen_traces ?t) ev"
    then obtain ev where
      "screen_traces (physics_substep dt vv hv ?t) = deque_append 5000 (screen_traces ?t) ev"
      by blast
    then have "screen_traces (physics_loop (Suc n) dt vv hv s)
        = drop (length ((screen_traces s @ evs) @ [ev]) - 5000) ((screen_traces s @ evs) @ [ev])"
      unfolding physics_loop_Suc tr by (simp only: deque_append_drop)
    with len have "length (evs @ [ev]) \<le> Suc n
        \<and> screen_traces (physics_loop (Suc n) dt vv hv s)
            = drop (length (screen_traces s @ evs @ [ev]) - 5000) (screen_traces s @ evs @ [ev])"
      by simp
    then show ?thesis by blast
  qed
qed

lemma update_physics_traces:
  assumes "length (screen_traces s) \<le> 5000"
  shows "\<exists>evs. length evs \<le> 100
           \<and> screen_traces (update_physics c s)
               = drop (length (screen_traces s @ evs) - 5000) (screen_traces s @ evs)"
proof (cases "simulation_speed s = 0")
  case True
  have "length ([] :: trace list) \<le> 100
        \<and> screen_traces (update_physics c s)
            = drop (length (screen_traces s @ []) - 5000) (screen_traces s @ [])"
    using assms True by (simp add: update_physics_def)
  then show ?thesis by blast
next
  case False
  let ?s1 = "s\<lparr>time := time s + real_of_int (c * simulation_speed s)\<rparr>"
  obtain vv hv where g: "get_voltages ?s1 = (vv, hv)" by (cases "get_voltages ?s1") auto
  have u: "update_physics c s = physics_loop 100 physics_dt vv hv ?s1"
    using False g by (simp add: update_physics_def Let_def)
  have l: "length (screen_traces ?s1) \<le> 5000" using assms by simp
  from physics_loop_traces [OF l, of 100 physics_dt vv hv]
  show ?thesis unfolding u by simp
qed

lemma run_frame_traces: "screen_traces (run_frame c s) = screen_traces (update_physics c s)"
  by (simp add: run_frame_def Let_def)

text \<open>
  Claim C9. The trace buffer is a deque of capacity 5000. Whatever sequence of events is
  appended to the empty buffer, it holds at most 5000 of them, and they are the last 5000
  appended, in order. An append to a buffer that holds 5000 events drops the first, oldest
  one; an append to a buffer with room drops nothing. \<open>update_physics\<close> keeps the bound,
  and the buffer of a new simulation is empty. In the engine: when the buffer holds 5000
  traces and a step of the loop body records a hit, the buffer afterwards is the old one
  without its first trace, followed by the new trace.
\<close>

theorem trace_buffer_bounded_fifo:
  "length (foldl (deque_append 5000) [] (evs :: trace list)) \<le> 5000
   \<and> foldl (deque_append 5000) [] evs = drop (length evs - 5000) evs
   \<and> (length d = 5000 \<longrightarrow> deque_append 5000 d (ev :: trace) = tl d @ [ev])
   \<and> (length d < 5000 \<longrightarrow> deque_append 5000 d ev = d @ [ev])
   \<and> (length (screen_traces s) \<le> 5000
        \<longrightarrow> length (screen_traces (update_physics c s)) \<le> 5000)
   \<and> screen_traces CRTSimulation_init = []
   \<and> (length (screen_traces s') = 5000
        \<and> has_hit_screen (update dt (acceleration_voltage (sliders s')) vv hv (electron s'))
        \<and> is_within_screen_bounds
            (update dt (acceleration_voltage (sliders s')) vv hv (electron s'))
        \<longrightarrow> screen_traces (physics_substep dt vv hv s')
            = tl (screen_traces s')
              @ [\<lparr>trace_x = x (update dt (acceleration_voltage (sliders s')) vv hv (electron s')),
                  trace_y = y (update dt (acceleration_voltage (sliders s')) vv hv (electron s')),
                  trace_time = time s',
                  trace_brightness = min 1 (acceleration_voltage (sliders s') / 4000)\<rparr>])"
  by (simp add: foldl_deque_append deque_append_full deque_append_room update_physics_length
      CRTSimulation_init_def physics_substep_traces)

theorem trace_buffer_bounded_fifo_witness:
  "deque_append 5000 (replicate 5000 tr_old) (centre_hit 16)
     = replicate 4999 tr_old @ [centre_hit 16]
   \<and> deque_append 5000 [tr_old] (centre_hit 16) = [tr_old, centre_hit 16]
   \<and> length (screen_traces (update_physics 16 CRTSimulation_init)) \<le> 5000
   \<and> screen_traces (physics_substep physics_dt 0 0 sim_full)
       = replicate 4999 tr_old
         @ [\<lparr>trace_x = 1 / 10, trace_y = 0, trace_time = 0, trace_brightness = 1 / 2\<rparr>]"
proof -
  have h1: "length (replicate 5000 tr_old) = 5000" by simp
  have h2: "length [tr_old] < 5000" by simp
  have h3: "length (screen_traces CRTSimulation_init) \<le> 5000" by (simp add: CRTSimulation_init_def)
  have t: "tl (replicate 5000 tr_old) = replicate 4999 tr_old" by (simp add: tl_replicate)
  from trace_buffer_bounded_fifo [of "[]" "replicate 5000 tr_old" "centre_hit 16" CRTSimulation_init 16] h1 h3
  have 1: "deque_append 5000 (replicate 5000 tr_old) (centre_hit 16)
             = replicate 4999 tr_old @ [centre_hit 16]"
    and 3: "length (screen_traces (update_physics 16 CRTSimulation_init)) \<le> 5000"
    unfolding t by blast+
  from trace_buffer_bounded_fifo [of "[]" "[tr_old]" "centre_hit 16" CRTSimulation_init 16] h2
  have 2: "deque_append 5000 [tr_old] (centre_hit 16) = [tr_old, centre_hit 16]"
    by simp
  have f: "screen_traces sim_full = replicate 5000 tr_old" "electron sim_full = e_edge"
    "acceleration_voltage (sliders sim_full) = 2000" "time sim_full = 0"
    by (simp_all add: sim_full_def CRTSimulation_init_def setup_controls_def)
  have u: "x (update physics_dt 2000 0 0 e_edge) = 1 / 10"
    "y (update physics_dt 2000 0 0 e_edge) = 0"
    "z (update physics_dt 2000 0 0 e_edge) = 35 / 100"
    by (simp_all add: update_x update_y update_z update_vx update_vy update_vz e_edge_def
          region_defs geometry_defs physics_dt_def)
  have h4: "length (screen_traces sim_full) = 5000
      \<and> has_hit_screen (update physics_dt (acceleration_voltage (sliders sim_full)) 0 0
                          (electron sim_full))
      \<and> is_within_screen_bounds (update physics_dt (acceleration_voltage (sliders sim_full)) 0 0
                                   (electron sim_full))"
    unfolding f has_hit_screen_def is_within_screen_bounds_def u
    by (simp add: geometry_defs)
  from trace_buffer_bounded_fifo [of "[]" "[]" "centre_hit 16" CRTSimulation_init 16
         sim_full physics_dt 0 0] h4
  have "screen_traces (physics_substep physics_dt 0 0 sim_full)
          = tl (screen_traces sim_full)
            @ [\<lparr>trace_x = x (update physics_dt (acceleration_voltage (sliders sim_full)) 0 0
                              (electron sim_full)),
                trace_y = y (update physics_dt (acceleration_voltage (sliders sim_full)) 0 0
                              (electron sim_full)),
                trace_time = time sim_full,
                trace_brightness = min 1 (acceleration_voltage (sliders sim_full) / 4000)\<rparr>]"
    by blast
  then have 4: "screen_traces (physics_substep physics_dt 0 0 sim_full)
       = replicate 4999 tr_old
         @ [\<lparr>trace_x = 1 / 10, trace_y = 0, trace_time = 0, trace_brightness = 1 / 2\<rparr>]"
    unfolding f u t by simp
  from 1 2 3 4 show ?thesis by simp
qed

text \<open>
  Claim C6. When the step of the loop body brings the electron to the screen plane, a
  trace is appended exactly when \<open>|x| \<le> SCREEN_SIZE / 2\<close> and \<open>|y| \<le> SCREEN_SIZE / 2\<close>,
  both bounds inclusive; otherwise the buffer is left as it was. In both cases the electron
  is reset. A step that does not reach the screen plane appends nothing.
\<close>

theorem screen_hit_recorded_within_bounds:
  "(has_hit_screen (update dt (acceleration_voltage (sliders s)) vv hv (electron s)) \<longrightarrow>
      screen_traces (physics_substep dt vv hv s) =
        (if \<bar>x (update dt (acceleration_voltage (sliders s)) vv hv (electron s))\<bar> \<le> SCREEN_SIZE / 2
            \<and> \<bar>y (update dt (acceleration_voltage (sliders s)) vv hv (electron s))\<bar> \<le> SCREEN_SIZE / 2
         then deque_append 5000 (screen_traces s)
                \<lparr>trace_x = x (update dt (acceleration_voltage (sliders s)) vv hv (electron s)),
                 trace_y = y (update dt (acceleration_voltage (sliders s)) vv hv (electron s)),
                 trace_time = time s,
                 trace_brightness = min 1 (acceleration_voltage (sliders s) / 4000)\<rparr>
         else screen_traces s)
      \<and> electron (physics_substep dt vv hv s)
          = reset (update dt (acceleration_voltage (sliders s)) vv hv (electron s)))
   \<and> (\<not> has_hit_screen (update dt (acceleration_voltage (sliders s)) vv hv (electron s)) \<longrightarrow>
        screen_traces (physics_substep dt vv hv s) = screen_traces s)"
  by (simp add: physics_substep_traces physics_substep_electron is_within_screen_bounds_def)

lemma e_edge_update:
  "x (update physics_dt 2000 0 0 e_edge) = 1 / 10"
  "y (update physics_dt 2000 0 0 e_edge) = 0"
  "z (update physics_dt 2000 0 0 e_edge) = 35 / 100"
  by (simp_all add: update_x update_y update_z update_vx update_vy update_vz e_edge_def
        region_defs geometry_defs physics_dt_def)

theorem screen_hit_recorded_within_bounds_witness:
  "screen_traces (physics_substep physics_dt 0 0 (CRTSimulation_init\<lparr>electron := e_edge\<rparr>))
     = [\<lparr>trace_x = 1 / 10, trace_y = 0, trace_time = 0, trace_brightness = 1 / 2\<rparr>]
   \<and> screen_traces (physics_substep physics_dt 0 0
        (CRTSimulation_init\<lparr>electron := e_edge\<lparr>x := 6 / 100\<rparr>\<rparr>)) = []
   \<and> screen_traces (physics_substep physics_dt 0 0
        (CRTSimulation_init\<lparr>electron := e_edge\<lparr>z := 20 / 100\<rparr>\<rparr>)) = []"
proof -
  have s: "acceleration_voltage (sliders CRTSimulation_init) = 2000"
    "time CRTSimulation_init = 0"
    "screen_traces CRTSimulation_init = []"
    by (simp_all add: CRTSimulation_init_def setup_controls_def)
  have hit: "has_hit_screen (update physics_dt 2000 0 0 e_edge)"
    by (simp add: has_hit_screen_def e_edge_update geometry_defs)
  have out: "x (update physics_dt 2000 0 0 (e_edge\<lparr>x := 6 / 100\<rparr>)) = 11 / 100"
    "has_hit_screen (update physics_dt 2000 0 0 (e_edge\<lparr>x := 6 / 100\<rparr>))"
    by (simp_all add: has_hit_screen_def update_x update_z update_vx update_vz e_edge_def
          region_defs geometry_defs physics_dt_def)
  have miss: "\<not> has_hit_screen (update physics_dt 2000 0 0 (e_edge\<lparr>z := 20 / 100\<rparr>))"
    by (simp add: has_hit_screen_def update_z update_vz e_edge_def geometry_defs physics_dt_def)
  from screen_hit_recorded_within_bounds [of physics_dt "CRTSimulation_init\<lparr>electron := e_edge\<rparr>" 0 0]
       screen_hit_recorded_within_bounds [of physics_dt "CRTSimulation_init\<lparr>electron := e_edge\<lparr>x := 6 / 100\<rparr>\<rparr>" 0 0]
       screen_hit_recorded_within_bounds [of physics_dt "CRTSimulation_init\<lparr>electron := e_edge\<lparr>z := 20 / 100\<rparr>\<rparr>" 0 0]
       hit out miss
  show ?thesis
    by (simp add: s e_edge_update deque_append_def SCREEN_SIZE_def)
qed

section \<open>Plate voltages in waveform mode\<close>

text \<open>
  Against claim C4 as stated: in the configuration \<open>setup_controls\<close> builds, switched to
  waveform mode at time 0, Simul.py returns \<open>-150\<close> V for the vertical plates and \<open>0\<close> V
  for the horizontal plates, where a sinusoid with each axis's own phase (0 and 90 degrees)
  gives \<open>0\<close> V and \<open>150\<close> V.
\<close>

theorem waveform_own_phase_counterexample:
  "get_voltages (CRTSimulation_init\<lparr>mode := ''lissajous''\<rparr>) = (- 150, 0)
   \<and> vert_amplitude (sliders (CRTSimulation_init\<lparr>mode := ''lissajous''\<rparr>))
       * sin (2 * pi * vert_frequency (sliders (CRTSimulation_init\<lparr>mode := ''lissajous''\<rparr>))
                * (time (CRTSimulation_init\<lparr>mode := ''lissajous''\<rparr>) / 1000)
              + vert_phase (sliders (CRTSimulation_init\<lparr>mode := ''lissajous''\<rparr>)) * pi / 180)
     = 0
   \<and> horiz_amplitude (sliders (CRTSimulation_init\<lparr>mode := ''lissajous''\<rparr>))
       * sin (2 * pi * horiz_frequency (sliders (CRTSimulation_init\<lparr>mode := ''lissajous''\<rparr>))
                * (time (CRTSimulation_init\<lparr>mode := ''lissajous''\<rparr>) / 1000)
              + horiz_phase (sliders (CRTSimulation_init\<lparr>mode := ''lissajous''\<rparr>)) * pi / 180)
     = 150"
  by (simp add: get_voltages_def CRTSimulation_init_def setup_controls_def Let_def)

text \<open>
  Claim C4, amended. In waveform mode, at the simulated time \<open>t = time / 1000\<close> seconds,
  Simul.py returns \<open>Av sin(2 pi fv t + delta)\<close> for the vertical plates, where \<open>delta\<close>
  is the difference of the two phase sliders in radians, and \<open>Ah sin(2 pi fh t)\<close> with no
  phase term for the horizontal plates. simul\_prueba.py returns for each axis the sinusoid
  with that axis's own phase. The two variants agree when the horizontal phase is 0.
\<close>

theorem waveform_voltages:
  "mode s \<noteq> ''manual'' \<longrightarrow>
     get_voltages s =
       (vert_amplitude (sliders s)
          * sin (2 * pi * vert_frequency (sliders s) * (time s / 1000)
                 + (vert_phase (sliders s) - horiz_phase (sliders s)) * pi / 180),
        horiz_amplitude (sliders s)
          * sin (2 * pi * horiz_frequency (sliders s) * (time s / 1000)))
     \<and> get_voltages_prueba s =
       (vert_amplitude (sliders s)
          * sin (2 * pi * vert_frequency (sliders s) * (time s / 1000)
                 + vert_phase (sliders s) * pi / 180),
        horiz_amplitude (sliders s)
          * sin (2 * pi * horiz_frequency (sliders s) * (time s / 1000)
                 + horiz_phase (sliders s) * pi / 180))
     \<and> (horiz_phase (sliders s) = 0 \<longrightarrow> get_voltages s = get_voltages_prueba s)"
  by (simp add: get_voltages_def get_voltages_prueba_def Let_def)

theorem waveform_voltages_witness:
  "get_voltages (CRTSimulation_init\<lparr>mode := ''lissajous'', time := 250\<rparr>) = (0, 150 * sin (3 * pi / 4))
   \<and> get_voltages_prueba (CRTSimulation_init\<lparr>mode := ''lissajous'', time := 250\<rparr>)
       = (150, 150 * sin (5 * pi / 4))"
proof -
  have h: "mode (CRTSimulation_init\<lparr>mode := ''lissajous'', time := 250\<rparr>) \<noteq> ''manual''" by simp
  have a: "2 * pi * (15 / 10) * (250 / 1000) = 3 * pi / 4"
    "2 * pi * (15 / 10) * (250 / 1000) + 90 * pi / 180 = 5 * pi / 4"
    "2 * pi * 1 * (250 / 1000) + (0 - 90) * pi / 180 = 0"
    "2 * pi * 1 * (250 / 1000) + 0 * pi / 180 = pi / 2"
    by simp_all
  from waveform_voltages [of "CRTSimulation_init\<lparr>mode := ''lissajous'', time := 250\<rparr>"] h
  show ?thesis
    by (simp add: CRTSimulation_init_def setup_controls_def a)
qed

section \<open>Fading of the traces on the screen view\<close>

text \<open>
  Against claim C3 as stated: for a trace of brightness 1 that is 950 ms old, with a
  persistence of 500 ms, the code computes the fade factor \<open>alpha = max(0.1, 0.05) = 0.1\<close>
  and hands \<open>255 * 0.1 * 1 = 25.5\<close> to \<open>int()\<close>; the intensity
  \<open>brightness * max(0, 1 - age / (2 * persistence))\<close> is \<open>0.05\<close>, on the same scale 12.75.
\<close>

theorem display_intensity_counterexample:
  "draw_trace (\<lambda>sx sy. True) 500 950 tr_old
     = Inr (Some \<lparr>drawn_alpha = 1 / 10, drawn_x = center_x, drawn_y = center_y,
                  drawn_intensity = 51 / 2, drawn_size = 7 / 10\<rparr>)
   \<and> spec_intensity 500 950 tr_old = 1 / 20
   \<and> 255 * spec_intensity 500 950 tr_old = 51 / 4"
  by (simp add: draw_trace_def spec_intensity_def tr_old_def Let_def)

lemma draw_trace_old: "p * 2 \<le> t - trace_time tr \<Longrightarrow> draw_trace cp p t tr = Inr None"
  by (simp add: draw_trace_def Let_def)

lemma draw_trace_young:
  "p \<noteq> 0 \<Longrightarrow> t - trace_time tr < p * 2 \<Longrightarrow>
   cp (center_x + trace_x tr * scale_x) (center_y - trace_y tr * scale_y) \<Longrightarrow>
   draw_trace cp p t tr
     = Inr (Some \<lparr>drawn_alpha = max (1 / 10) (1 - (t - trace_time tr) / (p * 2)),
                  drawn_x = center_x + trace_x tr * scale_x,
                  drawn_y = center_y - trace_y tr * scale_y,
                  drawn_intensity
                    = 255 * max (1 / 10) (1 - (t - trace_time tr) / (p * 2)) * trace_brightness tr,
                  drawn_size
                    = 7 * max (1 / 10) (1 - (t - trace_time tr) / (p * 2)) * trace_brightness tr\<rparr>)"
  by (simp add: draw_trace_def Let_def)

lemma draw_trace_zero_persistence:
  "p = 0 \<Longrightarrow> t - trace_time tr < p * 2 \<Longrightarrow> draw_trace cp p t tr = Inl ZeroDivisionError"
  by (simp add: draw_trace_def Let_def)

lemma spec_intensity_agrees:
  assumes "1 / 10 \<le> 1 - (t - trace_time tr) / (p * 2)"
  shows "max (1 / 10) (1 - (t - trace_time tr) / (p * 2)) * trace_brightness tr
           = spec_intensity p t tr"
proof -
  define w where "w = 1 - (t - trace_time tr) / (p * 2)"
  from assms have "1 / 10 \<le> w" by (simp only: w_def)
  then have m: "max (1 / 10) w = w" "max 0 w = w" by (simp_all add: max_def)
  have "spec_intensity p t tr = trace_brightness tr * max 0 w"
    by (simp add: spec_intensity_def Let_def w_def mult.commute)
  with m show ?thesis unfolding w_def [symmetric] by simp
qed

lemma spec_intensity_faded:
  assumes "0 < p" and "0 < trace_brightness tr"
  shows "spec_intensity p t tr \<le> 0 \<longleftrightarrow> p * 2 \<le> t - trace_time tr"
proof -
  have "spec_intensity p t tr \<le> 0 \<longleftrightarrow> max 0 (1 - (t - trace_time tr) / (2 * p)) \<le> 0"
    using assms(2) by (simp add: spec_intensity_def Let_def mult_le_0_iff)
  also have "\<dots> \<longleftrightarrow> 1 \<le> (t - trace_time tr) / (2 * p)" by simp
  also have "\<dots> \<longleftrightarrow> p * 2 \<le> t - trace_time tr"
    using assms(1) by (simp add: le_divide_eq mult.commute)
  finally show ?thesis .
qed

text \<open>
  The buffer over one pass of \<open>run\<close>, in both variants. The window of
  \<open>physics_loop_traces\<close> does not mention the time, the ages or the persistence.
\<close>

lemma run_frame_window:
  assumes "length (screen_traces s) \<le> 5000"
  shows "\<exists>evs. length evs \<le> 100
           \<and> screen_traces (run_frame c s)
               = drop (length (screen_traces s @ evs) - 5000) (screen_traces s @ evs)"
  unfolding run_frame_traces using assms by (rule update_physics_traces)

lemma run_frame_keeps:
  assumes "length (screen_traces s) + 100 \<le> 5000"
  shows "\<exists>evs. screen_traces (run_frame c s) = screen_traces s @ evs"
proof -
  from assms have "length (screen_traces s) \<le> 5000" by simp
  from run_frame_window [OF this, of c] obtain evs where len: "length evs \<le> 100"
    and tr: "screen_traces (run_frame c s)
               = drop (length (screen_traces s @ evs) - 5000) (screen_traces s @ evs)"
    by blast
  from len assms have "length (screen_traces s @ evs) - 5000 = 0" by simp
  with tr have "screen_traces (run_frame c s) = screen_traces s @ evs" by simp
  then show ?thesis by blast
qed

lemma physics_substep_prueba_traces_cases:
  "screen_traces (physics_substep_prueba dt vv hv va s) = screen_traces s
   \<or> (\<exists>ev. screen_traces (physics_substep_prueba dt vv hv va s)
               = deque_append 5000 (screen_traces s) ev)"
  by (auto simp add: physics_substep_prueba_def Let_def split: prod.split)

lemma physics_loop_prueba_Suc:
  "physics_loop_prueba (Suc n) dt vv hv va s
     = physics_substep_prueba dt vv hv va (physics_loop_prueba n dt vv hv va s)"
  by (induction n arbitrary: s) simp_all

lemma physics_loop_prueba_traces:
  assumes "length (screen_traces s) \<le> 5000"
  shows "\<exists>evs. length evs \<le> n
           \<and> screen_traces (physics_loop_prueba n dt vv hv va s)
               = drop (length (screen_traces s @ evs) - 5000) (screen_traces s @ evs)"
proof (induction n)
  case 0
  have "length ([] :: trace list) \<le> 0
        \<and> screen_traces (physics_loop_prueba 0 dt vv hv va s)
            = drop (length (screen_traces s @ []) - 5000) (screen_traces s @ [])"
    using assms by simp
  then show ?case by blast
next
  case (Suc n)
  then obtain evs where len: "length evs \<le> n"
    and tr: "screen_traces (physics_loop_prueba n dt vv hv va s)
               = drop (length (screen_traces s @ evs) - 5000) (screen_traces s @ evs)"
    by blast
  let ?t = "physics_loop_prueba n dt vv hv va s"
  from physics_substep_prueba_traces_cases [of dt vv hv va ?t]
  show ?case
  proof
    assume same: "screen_traces (physics_substep_prueba dt vv hv va ?t) = screen_traces ?t"
    have "screen_traces (physics_loop_prueba (Suc n) dt vv hv va s)
            = drop (length (screen_traces s @ evs) - 5000) (screen_traces s @ evs)"
      unfolding physics_loop_prueba_Suc same by (rule tr)
    moreover from len have "length evs \<le> Suc n" by simp
    ultimately show ?thesis by blast
  next
    assume "\<exists>ev. screen_traces (physics_substep_prueba dt vv hv va ?t)
                   = deque_append 5000 (screen_traces ?t) ev"
    then obtain ev where
      "screen_traces (physics_substep_prueba dt vv hv va ?t)
         = deque_append 5000 (screen_traces ?t) ev"
      by blast
    then have "screen_traces (physics_loop_prueba (Suc n) dt vv hv va s)
        = drop (length ((screen_traces s @ evs) @ [ev]) - 5000) ((screen_traces s @ evs) @ [ev])"
      unfolding physics_loop_prueba_Suc tr by (simp only: deque_append_drop)
    with len have "length (evs @ [ev]) \<le> Suc n
        \<and> screen_traces (physics_loop_prueba (Suc n) dt vv hv va s)
            = drop (length (screen_traces s @ evs @ [ev]) - 5000) (screen_traces s @ evs @ [ev])"
      by simp
    then show ?thesis by blast
  qed
qed

lemma run_frame_prueba_window:
  assumes "length (screen_traces s) \<le> 5000"
  shows "\<exists>evs. length evs \<le> 100
           \<and> screen_traces (run_frame_prueba s)
               = drop (length (screen_traces s @ evs) - 5000) (screen_traces s @ evs)"
proof (cases "simulation_speed s = 0")
  case True
  have "length ([] :: trace list) \<le> 100
        \<and> screen_traces (run_frame_prueba s)
            = drop (length (screen_traces s @ []) - 5000) (screen_traces s @ [])"
    using assms True by (simp add: run_frame_prueba_def update_physics_prueba_def)
  then show ?thesis by blast
next
  case False
  obtain vv hv where g: "get_voltages_prueba s = (vv, hv)"
    by (cases "get_voltages_prueba s") auto
  have "screen_traces (run_frame_prueba s)
          = screen_traces (physics_loop_prueba 100 physics_dt vv hv
                             (acceleration_voltage (sliders s)) s)"
    using False g by (simp add: run_frame_prueba_def update_physics_prueba_def Let_def)
  with physics_loop_prueba_traces [OF assms, of 100 physics_dt vv hv
         "acceleration_voltage (sliders s)"]
  show ?thesis by simp
qed

text \<open>
  Claim C3, amended. For a trace in the buffer, drawn at time \<open>tNow\<close> with
  \<open>age = tNow - timestamp\<close> and a persistence that is not zero: when \<open>age\<close> is less
  than twice the persistence (and its pixel lies in the view) the fade factor is
  \<open>max(0.1, 1 - age / (2 * persistence))\<close>, floored at 0.1 and not at 0, and the display
  intensity handed to \<open>int()\<close> is 255 times that factor times the brightness. Where the
  factor is at least 0.1 the intensity is the one of the specification. A trace whose age
  is at least twice the persistence is skipped; for a positive persistence and brightness
  these are exactly the traces whose specified intensity is not positive. Skipped or not,
  a trace stays in the buffer until capacity evicts it: over one pass of \<open>run\<close>, in either
  variant and whatever the time and the persistence, the new buffer is the old buffer
  followed by at most 100 new traces, cut at the front to the last 5000, so that a buffer
  with room for 100 more loses nothing.
\<close>

theorem display_intensity_floored:
  "(p \<noteq> 0 \<and> t - trace_time tr < p * 2
      \<and> cp (center_x + trace_x tr * scale_x) (center_y - trace_y tr * scale_y) \<longrightarrow>
      draw_trace cp p t tr
        = Inr (Some \<lparr>drawn_alpha = max (1 / 10) (1 - (t - trace_time tr) / (p * 2)),
                     drawn_x = center_x + trace_x tr * scale_x,
                     drawn_y = center_y - trace_y tr * scale_y,
                     drawn_intensity
                       = 255 * max (1 / 10) (1 - (t - trace_time tr) / (p * 2))
                           * trace_brightness tr,
                     drawn_size
                       = 7 * max (1 / 10) (1 - (t - trace_time tr) / (p * 2))
                           * trace_brightness tr\<rparr>))
   \<and> (p * 2 \<le> t - trace_time tr \<longrightarrow> draw_trace cp p t tr = Inr None)
   \<and> (1 / 10 \<le> 1 - (t - trace_time tr) / (p * 2) \<longrightarrow>
        max (1 / 10) (1 - (t - trace_time tr) / (p * 2)) * trace_brightness tr
          = spec_intensity p t tr)
   \<and> (0 < p \<and> 0 < trace_brightness tr \<longrightarrow>
        (spec_intensity p t tr \<le> 0 \<longleftrightarrow> p * 2 \<le> t - trace_time tr))
   \<and> (length (screen_traces s) \<le> 5000 \<longrightarrow>
        (\<exists>evs. length evs \<le> 100
           \<and> screen_traces (run_frame c s)
               = drop (length (screen_traces s @ evs) - 5000) (screen_traces s @ evs))
        \<and> (\<exists>evs. length evs \<le> 100
           \<and> screen_traces (run_frame_prueba s)
               = drop (length (screen_traces s @ evs) - 5000) (screen_traces s @ evs)))
   \<and> (length (screen_traces s) + 100 \<le> 5000 \<longrightarrow>
        (\<exists>evs. screen_traces (run_frame c s) = screen_traces s @ evs))"
  using draw_trace_young [of p t tr cp] draw_trace_old [of p t tr cp]
    spec_intensity_agrees [of t tr p] spec_intensity_faded [of p tr t]
    run_frame_window [of s c] run_frame_prueba_window [of s] run_frame_keeps [of s c]
  by blast

theorem display_intensity_floored_witness:
  "draw_trace (\<lambda>sx sy. True) 500 950 tr_old
     = Inr (Some \<lparr>drawn_alpha = 1 / 10, drawn_x = center_x, drawn_y = center_y,
                  drawn_intensity = 51 / 2, drawn_size = 7 / 10\<rparr>)
   \<and> draw_trace (\<lambda>sx sy. True) 500 400 tr_old
     = Inr (Some \<lparr>drawn_alpha = 3 / 5, drawn_x = center_x, drawn_y = center_y,
                  drawn_intensity = 153, drawn_size = 21 / 5\<rparr>)
   \<and> spec_intensity 500 400 tr_old = 3 / 5
   \<and> draw_trace (\<lambda>sx sy. True) 500 2000 tr_old = Inr None
   \<and> spec_intensity 500 2000 tr_old \<le> 0
   \<and> draw_screen_view (\<lambda>sx sy. True) sim_faded = Inr []
   \<and> (\<exists>evs. screen_traces (run_frame 16 sim_faded) = tr_old # evs)"
proof -
  have t: "trace_time tr_old = 0" "trace_brightness tr_old = 1" "trace_x tr_old = 0"
    "trace_y tr_old = 0"
    by (simp_all add: tr_old_def)
  have f: "screen_traces sim_faded = [tr_old]" "time sim_faded = 2000"
    "persistence (sliders sim_faded) = 500"
    by (simp_all add: sim_faded_def CRTSimulation_init_def setup_controls_def)
  have a: "(500::real) \<noteq> 0 \<and> (950::real) - trace_time tr_old < 500 * 2
      \<and> (\<lambda>sx sy. True) (center_x + trace_x tr_old * scale_x) (center_y - trace_y tr_old * scale_y)"
    by (simp add: t)
  have b: "(500::real) \<noteq> 0 \<and> (400::real) - trace_time tr_old < 500 * 2
      \<and> (\<lambda>sx sy. True) (center_x + trace_x tr_old * scale_x) (center_y - trace_y tr_old * scale_y)"
    by (simp add: t)
  have c: "(1::real) / 10 \<le> 1 - (400 - trace_time tr_old) / (500 * 2)" by (simp add: t)
  have d: "(500::real) * 2 \<le> 2000 - trace_time tr_old" by (simp add: t)
  have e: "(0::real) < 500 \<and> 0 < trace_brightness tr_old" by (simp add: t)
  have g: "length (screen_traces sim_faded) + 100 \<le> 5000" by (simp add: f)
  from display_intensity_floored [of 500 950 tr_old "\<lambda>sx sy. True" sim_faded 16] a
  have 1: "draw_trace (\<lambda>sx sy. True) 500 950 tr_old
     = Inr (Some \<lparr>drawn_alpha = 1 / 10, drawn_x = center_x, drawn_y = center_y,
                  drawn_intensity = 51 / 2, drawn_size = 7 / 10\<rparr>)"
    by (simp add: t)
  from display_intensity_floored [of 500 400 tr_old "\<lambda>sx sy. True" sim_faded 16] b c
  have 2: "draw_trace (\<lambda>sx sy. True) 500 400 tr_old
     = Inr (Some \<lparr>drawn_alpha = 3 / 5, drawn_x = center_x, drawn_y = center_y,
                  drawn_intensity = 153, drawn_size = 21 / 5\<rparr>)"
     and 3: "spec_intensity 500 400 tr_old = 3 / 5"
    by (simp_all add: t)
  from display_intensity_floored [of 500 2000 tr_old "\<lambda>sx sy. True" sim_faded 16] d e g
  have 4: "draw_trace (\<lambda>sx sy. True) 500 2000 tr_old = Inr None"
    and 5: "spec_intensity 500 2000 tr_old \<le> 0"
    and 7: "\<exists>evs. screen_traces (run_frame 16 sim_faded) = screen_traces sim_faded @ evs"
    by blast+
  have 6: "draw_screen_view (\<lambda>sx sy. True) sim_faded = Inr []"
    by (simp add: draw_screen_view_def f 4)
  from 7 have 8: "\<exists>evs. screen_traces (run_frame 16 sim_faded) = tr_old # evs"
    by (simp add: f)
  from 1 2 3 4 5 6 8 show ?thesis by blast
qed

section \<open>One frame of the default configuration\<close>

lemma default_vz_bounds: "25000000 \<le> default_vz" "default_vz \<le> 27000000"
proof -
  have k: "2 * ELECTRON_CHARGE * \<bar>2000\<bar> / ELECTRON_MASS = 6408 * 10 ^ 15 / 9109"
    by (simp add: ELECTRON_CHARGE_def ELECTRON_MASS_def)
  show "25000000 \<le> default_vz"
    unfolding default_vz_def k by (rule real_le_rsqrt) simp
  show "default_vz \<le> 27000000"
    unfolding default_vz_def k by (rule real_le_lsqrt) simp_all
qed

lemma step_bounds: "5 / 100 \<le> default_vz * physics_dt" "default_vz * physics_dt \<le> 54 / 1000"
  using default_vz_bounds by (simp_all add: physics_dt_def)

lemma acceleration_zero: "acceleration_y 0 = 0" "acceleration_x 0 = 0"
  by (simp_all add: acceleration_y_def acceleration_x_def)

lemma reset_const: "reset e = Electron_init"
  by (cases e) (simp add: reset_def Electron_init_def)

lemma in_flight_init: "in_flight Electron_init"
  by (simp add: in_flight_def Electron_init_fields)

lemma update_in_flight:
  assumes "in_flight e"
  shows "in_flight (update dt 2000 0 0 e)"
    and "z (update dt 2000 0 0 e) = z e + default_vz * dt"
    and "initial_acceleration_done (update dt 2000 0 0 e)"
proof -
  from assms have f: "x e = 0" "y e = 0" "vx e = 0" "vy e = 0"
    and v: "initial_acceleration_done e \<Longrightarrow> vz e = default_vz"
    by (simp_all add: in_flight_def)
  have vz: "vz (update dt 2000 0 0 e) = default_vz"
    using v by (cases "initial_acceleration_done e") (simp_all add: update_vz default_vz_def)
  have vx: "vx (update dt 2000 0 0 e) = 0" and vy: "vy (update dt 2000 0 0 e) = 0"
    using f by (simp_all add: update_vx update_vy acceleration_zero)
  show "in_flight (update dt 2000 0 0 e)"
    using f vz by (simp add: in_flight_def update_x update_y vx vy)
  show "z (update dt 2000 0 0 e) = z e + default_vz * dt"
    by (simp add: update_z vz)
  show "initial_acceleration_done (update dt 2000 0 0 e)"
    by (simp add: update_done)
qed

lemma substep_no_hit:
  assumes "cruising s" and "z (electron s) + default_vz * dt < 33 / 100"
  shows "cruising (physics_substep dt 0 0 s)"
    and "screen_traces (physics_substep dt 0 0 s) = screen_traces s"
    and "z (electron (physics_substep dt 0 0 s)) = z (electron s) + default_vz * dt"
proof -
  from assms(1) have va: "acceleration_voltage (sliders s) = 2000" and fl: "in_flight (electron s)"
    by (simp_all add: cruising_def)
  have nh: "\<not> has_hit_screen (update dt 2000 0 0 (electron s))"
    using assms(2) by (simp add: has_hit_screen_def update_in_flight(2) [OF fl] geometry_defs)
  show "cruising (physics_substep dt 0 0 s)"
    using nh update_in_flight(1) [OF fl, of dt]
    by (simp add: cruising_def physics_substep_electron va)
  show "screen_traces (physics_substep dt 0 0 s) = screen_traces s"
    using nh by (simp add: physics_substep_traces va)
  show "z (electron (physics_substep dt 0 0 s)) = z (electron s) + default_vz * dt"
    using nh by (simp add: physics_substep_electron va update_in_flight(2) [OF fl])
qed

lemma substep_hit:
  assumes "cruising s" and "33 / 100 \<le> z (electron s) + default_vz * dt"
  shows "cruising (physics_substep dt 0 0 s)"
    and "screen_traces (physics_substep dt 0 0 s)
           = deque_append 5000 (screen_traces s) (centre_hit (time s))"
    and "electron (physics_substep dt 0 0 s) = Electron_init"
proof -
  from assms(1) have va: "acceleration_voltage (sliders s) = 2000" and fl: "in_flight (electron s)"
    by (simp_all add: cruising_def)
  have h: "has_hit_screen (update dt 2000 0 0 (electron s))"
    using assms(2) by (simp add: has_hit_screen_def update_in_flight(2) [OF fl] geometry_defs)
  have xy: "x (update dt 2000 0 0 (electron s)) = 0" "y (update dt 2000 0 0 (electron s)) = 0"
    using update_in_flight(1) [OF fl, of dt] by (simp_all add: in_flight_def)
  show e: "electron (physics_substep dt 0 0 s) = Electron_init"
    using h by (simp add: physics_substep_electron va reset_const)
  show "cruising (physics_substep dt 0 0 s)"
    by (simp add: cruising_def e in_flight_init va)
  show "screen_traces (physics_substep dt 0 0 s)
          = deque_append 5000 (screen_traces s) (centre_hit (time s))"
    using h by (simp add: physics_substep_traces va xy is_within_screen_bounds_def
          SCREEN_SIZE_def centre_hit_def)
qed

lemma loop_no_hit:
  assumes "cruising s" and "z (electron s) + real n * (default_vz * physics_dt) < 33 / 100"
  shows "cruising (physics_loop n physics_dt 0 0 s)
       \<and> screen_traces (physics_loop n physics_dt 0 0 s) = screen_traces s
       \<and> z (electron (physics_loop n physics_dt 0 0 s))
           = z (electron s) + real n * (default_vz * physics_dt)"
  using assms
proof (induction n)
  case 0
  then show ?case by simp
next
  case (Suc n)
  have pos: "0 \<le> default_vz * physics_dt" using step_bounds(1) by simp
  from Suc.prems(2) pos
  have lt: "z (electron s) + real n * (default_vz * physics_dt) < 33 / 100"
    by (simp add: algebra_simps)
  note ih = Suc.IH [OF Suc.prems(1) lt]
  from ih Suc.prems(2)
  have lt': "z (electron (physics_loop n physics_dt 0 0 s)) + default_vz * physics_dt < 33 / 100"
    by (simp add: algebra_simps)
  from ih have c: "cruising (physics_loop n physics_dt 0 0 s)" by simp
  show ?case
    unfolding physics_loop_Suc
    using substep_no_hit [OF c lt'] ih by (simp add: algebra_simps)
qed

lemma transit:
  assumes "cruising s" and "electron s = Electron_init"
  shows "cruising (physics_loop 7 physics_dt 0 0 s)
       \<and> electron (physics_loop 7 physics_dt 0 0 s) = Electron_init
       \<and> screen_traces (physics_loop 7 physics_dt 0 0 s)
           = deque_append 5000 (screen_traces s) (centre_hit (time s))"
proof -
  have z0: "z (electron s) = 1 / 1000" by (simp add: assms(2) Electron_init_fields)
  have six: "z (electron s) + real 6 * (default_vz * physics_dt) < 33 / 100"
    using step_bounds(2) by (simp add: z0)
  note l = loop_no_hit [OF assms(1) six]
  from l have c: "cruising (physics_loop 6 physics_dt 0 0 s)" by simp
  have seven: "33 / 100 \<le> z (electron (physics_loop 6 physics_dt 0 0 s)) + default_vz * physics_dt"
    using l step_bounds(1) by (simp add: z0)
  have "physics_loop 7 physics_dt 0 0 s
          = physics_substep physics_dt 0 0 (physics_loop 6 physics_dt 0 0 s)"
    using physics_loop_Suc [of 6 physics_dt 0 0 s] by simp
  then show ?thesis
    using substep_hit [OF c seven] l by simp
qed

lemma foldl_replicate_Suc:
  "foldl f a (replicate (Suc m) v) = f (foldl f a (replicate m v)) v"
proof -
  have "replicate (Suc m) v = replicate m v @ [v]"
    by (simp add: replicate_append_same)
  then have "foldl f a (replicate (Suc m) v) = foldl f a (replicate m v @ [v])"
    by (rule arg_cong)
  then show ?thesis by (simp only: foldl_append foldl.simps)
qed

lemma transits:
  assumes "cruising s" and "electron s = Electron_init"
  shows "cruising (physics_loop (m * 7) physics_dt 0 0 s)
       \<and> electron (physics_loop (m * 7) physics_dt 0 0 s) = Electron_init
       \<and> screen_traces (physics_loop (m * 7) physics_dt 0 0 s)
           = foldl (deque_append 5000) (screen_traces s) (replicate m (centre_hit (time s)))"
proof (induction m)
  case 0
  then show ?case using assms by simp
next
  case (Suc m)
  let ?s = "physics_loop (m * 7) physics_dt 0 0 s"
  have "physics_loop (Suc m * 7) physics_dt 0 0 s = physics_loop 7 physics_dt 0 0 ?s"
    using physics_loop_add [of "m * 7" 7 physics_dt 0 0 s] by (simp add: add.commute)
  moreover from Suc.IH have c: "cruising ?s" and e: "electron ?s = Electron_init" by simp_all
  ultimately show ?case
    using transit [OF c e] Suc.IH
    by (simp add: foldl_replicate_Suc del: replicate_Suc)
qed

lemma default_frame:
  "screen_traces (update_physics c CRTSimulation_init) = replicate 14 (centre_hit (real_of_int c))"
proof -
  let ?s = "CRTSimulation_init\<lparr>time := real_of_int c\<rparr>"
  let ?t = "physics_loop 98 physics_dt 0 0 ?s"
  have u: "update_physics c CRTSimulation_init = physics_loop 100 physics_dt 0 0 ?s"
    by (simp add: update_physics_def CRTSimulation_init_def get_voltages_def setup_controls_def)
  have c: "cruising ?s" and e: "electron ?s = Electron_init"
    by (simp_all add: cruising_def CRTSimulation_init_def setup_controls_def in_flight_init)
  have s0: "screen_traces ?s = []" "time ?s = real_of_int c"
    by (simp_all add: CRTSimulation_init_def)
  from transits [OF c e, of 14]
  have ct: "cruising ?t" and et: "electron ?t = Electron_init"
    and tr: "screen_traces ?t
               = foldl (deque_append 5000) [] (replicate 14 (centre_hit (real_of_int c)))"
    unfolding s0 by simp_all
  have tr': "screen_traces ?t = replicate 14 (centre_hit (real_of_int c))"
    unfolding tr foldl_deque_append by simp
  have z0: "z (electron ?t) = 1 / 1000"
    unfolding et by (simp add: Electron_init_fields)
  have two: "z (electron ?t) + real 2 * (default_vz * physics_dt) < 33 / 100"
    unfolding z0 using step_bounds(2) by simp
  have "physics_loop 100 physics_dt 0 0 ?s = physics_loop 2 physics_dt 0 0 ?t"
    using physics_loop_add [of 98 2 physics_dt 0 0 ?s] by simp
  then show ?thesis
    using loop_no_hit [OF ct two] tr' u by simp
qed

text \<open>
  Where the simulated time comes from. In Simul.py one call of \<open>update_physics\<close> moves
  the time by the clock reading; in simul\_prueba.py \<open>update_physics\<close> leaves the time
  alone, and only the fixed 16 ms of \<open>run\<close> advance it.
\<close>

lemma update_physics_time:
  "time (update_physics c s) =
     (if simulation_speed s = 0 then time s
      else time s + real_of_int (c * simulation_speed s))"
  by (simp add: update_physics_def Let_def split: prod.split)

lemma physics_substep_prueba_time [simp]:
  "time (physics_substep_prueba dt vv hv va s) = time s"
  by (simp add: physics_substep_prueba_def Let_def split: prod.split)

lemma physics_loop_prueba_time [simp]:
  "time (physics_loop_prueba n dt vv hv va s) = time s"
  by (induction n arbitrary: s) simp_all

lemma update_physics_prueba_time: "time (update_physics_prueba s) = time s"
  by (simp add: update_physics_prueba_def Let_def split: prod.split)

lemma run_frame_time:
  "simulation_speed s > 0 \<Longrightarrow>
     time (run_frame c s) = time s + real_of_int (c * simulation_speed s) + 16"
  by (simp add: run_frame_def Let_def update_physics_time update_physics_def split: prod.split)

text \<open>
  Claim C1, at a failing input. \<open>update_physics\<close> of Simul.py adds the reading of the
  frame clock to the simulated time before it integrates. From the same new simulation,
  one call records fourteen hits at the centre of the screen; they carry the time stamp 16
  when the clock reads 16 ms and the time stamp 17 when it reads 17 ms, so the two trace
  sequences differ although the configuration, the step and the number of sub-steps are
  the same.
\<close>

theorem update_physics_reads_frame_clock:
  "screen_traces (update_physics 16 CRTSimulation_init) = replicate 14 (centre_hit 16)
   \<and> screen_traces (update_physics 17 CRTSimulation_init) = replicate 14 (centre_hit 17)
   \<and> screen_traces (update_physics 16 CRTSimulation_init)
       \<noteq> screen_traces (update_physics 17 CRTSimulation_init)"
  by (simp add: default_frame centre_hit_def)

end
